theory Spec2Isabelle
  imports Main "HOL-Library.Sublist" "HOL-Library.AList" "HOL-Library.Multiset"
begin

section \<open>Python values used by the creator-analysis pipeline\<close>

text \<open>
  Text is modelled by Isabelle strings. Their characters are the code points below 256,
  so slicing and length count characters as Python does on such text. Exceptions that the
  source can raise are values of \<open>py_error\<close>; a function that may raise returns
  \<open>py_error + 'a\<close> with \<open>Inl\<close> for the exception.
\<close>

datatype py_error = ZeroDivisionError | OverflowError | TypeError | KeyError | AttributeError

subsection \<open>\<open>str\<close> of an integer\<close>

definition digit_char :: "nat \<Rightarrow> char" where
  "digit_char d = ''0123456789'' ! d"

fun digits_of_nat :: "nat \<Rightarrow> string" where
  "digits_of_nat n =
     (if n < 10 then [digit_char n] else digits_of_nat (n div 10) @ [digit_char (n mod 10)])"

declare digits_of_nat.simps [simp del]

definition py_str_int :: "int \<Rightarrow> string" where
  "py_str_int i = (if i < 0 then CHR ''-'' # digits_of_nat (nat (- i)) else digits_of_nat (nat i))"

subsection \<open>True division of integers and the \<open>.1f\<close> format\<close>

text \<open>
  Python's \<open>a / b\<close> on integers is the double nearest to the exact quotient, ties to the
  even mantissa, and raises \<open>OverflowError\<close> when that double would not be finite. The
  callers below divide a count by a positive constant, so the operands are naturals.
  \<open>PyFloat m e\<close> is the double of value \<open>m * 2 ^ e\<close>.
\<close>

datatype pyfloat = PyFloat nat int

fun bit_length :: "nat \<Rightarrow> nat" where
  "bit_length n = (if n = 0 then 0 else Suc (bit_length (n div 2)))"

declare bit_length.simps [simp del]

definition round_half_even :: "nat \<Rightarrow> nat \<Rightarrow> nat" where
  "round_half_even a b =
     (let q = a div b; r = a mod b
      in if 2 * r < b then q
         else if b < 2 * r then q + 1
         else if even q then q else q + 1)"

definition floor_log2 :: "nat \<Rightarrow> nat \<Rightarrow> int" where
  "floor_log2 a b =
     (let k = int (bit_length a) - int (bit_length b)
      in if (if 0 \<le> k then b * 2 ^ nat k \<le> a else b \<le> a * 2 ^ nat (- k)) then k else k - 1)"

definition py_truediv :: "nat \<Rightarrow> nat \<Rightarrow> py_error + pyfloat" where
  "py_truediv a b =
     (if b = 0 then Inl ZeroDivisionError
      else if a = 0 then Inr (PyFloat 0 0)
      else
        let e = max (floor_log2 a b - 52) (- 1074);
            m = (if 0 \<le> e then round_half_even a (b * 2 ^ nat e)
                 else round_half_even (a * 2 ^ nat (- e)) b)
        in if 0 \<le> e \<and> 2 ^ 1024 \<le> m * 2 ^ nat e then Inl OverflowError
           else Inr (PyFloat m e))"

text \<open>
  \<open>f"{x:.1f}"\<close> prints the decimal with one fractional digit that is nearest to the exact
  value of the double, ties to the even digit.
\<close>

fun format_1f :: "pyfloat \<Rightarrow> string" where
  "format_1f (PyFloat m e) =
     (let t = (if 0 \<le> e then 10 * m * 2 ^ nat e else round_half_even (10 * m) (2 ^ nat (- e)))
      in digits_of_nat (t div 10) @ ''.'' @ [digit_char (t mod 10)])"

text \<open>\<open>f"{num / d:.1f}{unit}"\<close>, the expression every band of the formatters uses.\<close>

definition scaled_1f :: "int \<Rightarrow> nat \<Rightarrow> string \<Rightarrow> py_error + string" where
  "scaled_1f num d unit =
     (case py_truediv (nat num) d of
        Inl err \<Rightarrow> Inl err
      | Inr x \<Rightarrow> Inr (format_1f x @ unit))"

section \<open>Number formatting (utils/helpers.py and the platform clients)\<close>

definition format_large_number :: "int \<Rightarrow> py_error + string" where
  "format_large_number num =
     (if num \<ge> 1000000000 then scaled_1f num 1000000000 ''B''
      else if num \<ge> 1000000 then scaled_1f num 1000000 ''M''
      else if num \<ge> 1000 then scaled_1f num 1000 ''K''
      else Inr (py_str_int num))"

text \<open>
  \<open>YouTubeAPI._format_subscriber_count\<close>. The source first converts the decimal text of
  the API to an integer with \<open>int(count)\<close>; the model takes that integer.
\<close>

definition format_subscriber_count :: "int \<Rightarrow> py_error + string" where
  "format_subscriber_count cnt =
     (if cnt \<ge> 1000000 then scaled_1f cnt 1000000 ''M''
      else if cnt \<ge> 1000 then scaled_1f cnt 1000 ''K''
      else Inr (py_str_int cnt))"

section \<open>Text operations\<close>

text \<open>
  \<open>str.lower\<close> on the code points below 256: the letters \<open>A\<close> to \<open>Z\<close> and the
  capital letters of Latin-1 (192 to 222 without the multiplication sign 215) move up by 32;
  every other character stays.
\<close>

definition py_lower_char :: "char \<Rightarrow> char" where
  "py_lower_char c =
     (let n = (of_char c :: nat)
      in if (65 \<le> n \<and> n \<le> 90) \<or> (192 \<le> n \<and> n \<le> 222 \<and> n \<noteq> 215)
         then char_of (n + 32) else c)"

definition py_lower :: "string \<Rightarrow> string" where
  "py_lower s = map py_lower_char s"

text \<open>The characters below 256 that \<open>str.strip()\<close> removes.\<close>

definition py_isspace :: "char \<Rightarrow> bool" where
  "py_isspace c =
     (let n = (of_char c :: nat)
      in (9 \<le> n \<and> n \<le> 13) \<or> (28 \<le> n \<and> n \<le> 32) \<or> n = 133 \<or> n = 160)"

definition py_strip :: "string \<Rightarrow> string" where
  "py_strip s = rev (dropWhile py_isspace (rev (dropWhile py_isspace s)))"

text \<open>\<open>sub in s\<close> on strings: \<open>sub\<close> occurs in \<open>s\<close> as a contiguous run.\<close>

fun py_in :: "string \<Rightarrow> string \<Rightarrow> bool" where
  "py_in sub [] = (sub = [])"
| "py_in sub (c # cs) = (prefix sub (c # cs) \<or> py_in sub cs)"

section \<open>Platform detection (utils/helpers.py)\<close>

datatype PlatformType = YOUTUBE | GITHUB | INSTAGRAM | UNKNOWN

fun platform_value :: "PlatformType \<Rightarrow> string" where
  "platform_value YOUTUBE = ''youtube''"
| "platform_value GITHUB = ''github''"
| "platform_value INSTAGRAM = ''instagram''"
| "platform_value UNKNOWN = ''unknown''"

definition detect_platform :: "string \<Rightarrow> PlatformType" where
  "detect_platform url0 =
     (let url = py_strip (py_lower url0)
      in if py_in ''youtube.com'' url \<or> py_in ''youtu.be'' url then YOUTUBE
         else if py_in ''github.com'' url then GITHUB
         else if py_in ''instagram.com'' url \<or> py_in ''instagr.am'' url then INSTAGRAM
         else UNKNOWN)"

text \<open>
  The reading of "contains the fragment, whatever the letter case, the scheme before it and
  the path after it" that the detection is compared with: some contiguous part of the URL
  becomes the fragment when its letters are lowered.
\<close>

definition occurs_ignoring_case :: "string \<Rightarrow> string \<Rightarrow> bool" where
  "occurs_ignoring_case fragment url =
     (\<exists>before part after. url = before @ part @ after \<and> py_lower part = fragment)"

definition mentions_youtube :: "string \<Rightarrow> bool" where
  "mentions_youtube url =
     (occurs_ignoring_case ''youtube.com'' url \<or> occurs_ignoring_case ''youtu.be'' url)"

definition mentions_github :: "string \<Rightarrow> bool" where
  "mentions_github url = occurs_ignoring_case ''github.com'' url"

definition mentions_instagram :: "string \<Rightarrow> bool" where
  "mentions_instagram url =
     (occurs_ignoring_case ''instagram.com'' url \<or> occurs_ignoring_case ''instagr.am'' url)"

section \<open>Dictionaries and their values\<close>

text \<open>
  The dictionaries that travel through the pipeline hold strings, integers and \<open>None\<close>.
  A dictionary is an association list in insertion order.
\<close>

datatype pyval = VNone | VInt int | VStr string

type_synonym pydict = "(string \<times> pyval) list"

fun truthy :: "pyval \<Rightarrow> bool" where
  "truthy VNone = False"
| "truthy (VInt i) = (i \<noteq> 0)"
| "truthy (VStr s) = (s \<noteq> [])"

text \<open>\<open>a or b\<close>\<close>

definition py_or :: "pyval \<Rightarrow> pyval \<Rightarrow> pyval" where
  "py_or a b = (if truthy a then a else b)"

text \<open>How an f-string renders a value.\<close>

fun py_format :: "pyval \<Rightarrow> string" where
  "py_format VNone = ''None''"
| "py_format (VInt i) = py_str_int i"
| "py_format (VStr s) = s"

text \<open>A JSON field that is a string or \<open>null\<close>.\<close>

fun opt_str :: "string option \<Rightarrow> pyval" where
  "opt_str None = VNone"
| "opt_str (Some s) = VStr s"

text \<open>
  A field of a JSON object that the code reads with a default, \<open>d.get(k, default)\<close>: the
  key is absent and the default is taken, or the key holds \<open>null\<close>, which Python reads as
  \<open>None\<close>, or it holds a value.
\<close>

datatype 'a json_field = JAbsent | JNull | JValue 'a

fun get_count :: "int json_field \<Rightarrow> int \<Rightarrow> pyval" where
  "get_count JAbsent dflt = VInt dflt"
| "get_count JNull dflt = VNone"
| "get_count (JValue n) dflt = VInt n"

fun get_text :: "string json_field \<Rightarrow> string \<Rightarrow> pyval" where
  "get_text JAbsent dflt = VStr dflt"
| "get_text JNull dflt = VNone"
| "get_text (JValue s) dflt = VStr s"

text \<open>\<open>d.get(k, default)\<close>, \<open>d[k]\<close> and \<open>k in d\<close> on a dictionary of the pipeline\<close>

definition dict_get :: "pydict \<Rightarrow> string \<Rightarrow> pyval \<Rightarrow> pyval" where
  "dict_get d k dflt = (case map_of d k of None \<Rightarrow> dflt | Some v \<Rightarrow> v)"

definition dict_item :: "pydict \<Rightarrow> string \<Rightarrow> py_error + pyval" where
  "dict_item d k = (case map_of d k of None \<Rightarrow> Inl KeyError | Some v \<Rightarrow> Inr v)"

text \<open>\<open>v[:n]\<close> is defined on strings only.\<close>

fun py_slice_to :: "nat \<Rightarrow> pyval \<Rightarrow> py_error + string" where
  "py_slice_to n (VStr s) = Inr (take n s)"
| "py_slice_to n v = Inl TypeError"

text \<open>\<open>xs[:n]\<close> on a list, where a negative \<open>n\<close> counts from the end.\<close>

definition list_slice_to :: "int \<Rightarrow> 'a list \<Rightarrow> 'a list" where
  "list_slice_to n xs = (if 0 \<le> n then take (nat n) xs else take (length xs - nat (- n)) xs)"

text \<open>
  \<open>sorted(xs, key=k, reverse=True)\<close>: descending by key, and stable, that is, elements of
  equal key keep their order. Insertion sort on the negated key is that order.
\<close>

definition sorted_reverse :: "('a \<Rightarrow> int) \<Rightarrow> 'a list \<Rightarrow> 'a list" where
  "sorted_reverse k xs = sort_key (\<lambda>x. - k x) xs"

text \<open>\<open>sep.join(parts)\<close>\<close>

fun py_join :: "string \<Rightarrow> string list \<Rightarrow> string" where
  "py_join sep [] = []"
| "py_join sep [p] = p"
| "py_join sep (p # q # ps) = p @ sep @ py_join sep (q # ps)"

section \<open>Regular-expression searches of the clients\<close>

text \<open>
  \<open>re.search(pattern, s)\<close> tries the pattern at every start position from the left and
  returns the first match; \<open>re_search m s\<close> does so for a matcher \<open>m\<close> that tries the
  pattern at the head of its argument and yields group 1.
\<close>

fun re_search :: "(string \<Rightarrow> string option) \<Rightarrow> string \<Rightarrow> string option" where
  "re_search m [] = m []"
| "re_search m (c # cs) = (case m (c # cs) of Some g \<Rightarrow> Some g | None \<Rightarrow> re_search m cs)"

text \<open>The class \<open>[a-zA-Z0-9_-]\<close>.\<close>

definition is_name_char :: "char \<Rightarrow> bool" where
  "is_name_char c =
     (let n = (of_char c :: nat)
      in (97 \<le> n \<and> n \<le> 122) \<or> (65 \<le> n \<and> n \<le> 90) \<or> (48 \<le> n \<and> n \<le> 57)
         \<or> c = CHR ''_'' \<or> c = CHR ''-'')"

text \<open>
  A literal followed by \<open>(class+)\<close>: the group is the longest run of class characters
  after the literal and must not be empty.
\<close>

definition match_run :: "string \<Rightarrow> (char \<Rightarrow> bool) \<Rightarrow> string \<Rightarrow> string option" where
  "match_run lit cls s =
     (if prefix lit s
      then (let run = takeWhile cls (drop (length lit) s)
            in if run = [] then None else Some run)
      else None)"

text \<open>
  A literal followed by \<open>(class+)/.*\<close>, for a class without the slash: the run can only
  be followed by the slash when it is the longest one.
\<close>

definition match_run_slash :: "string \<Rightarrow> (char \<Rightarrow> bool) \<Rightarrow> string \<Rightarrow> string option" where
  "match_run_slash lit cls s =
     (if prefix lit s
      then (let rest = drop (length lit) s; run = takeWhile cls rest
            in if run \<noteq> [] \<and> prefix ''/'' (dropWhile cls rest) then Some run else None)
      else None)"

text \<open>A literal followed by \<open>(class{n})\<close>.\<close>

definition match_exact :: "string \<Rightarrow> (char \<Rightarrow> bool) \<Rightarrow> nat \<Rightarrow> string \<Rightarrow> string option" where
  "match_exact lit cls n s =
     (if prefix lit s
      then (let g = take n (drop (length lit) s)
            in if length g = n \<and> list_all cls g then Some g else None)
      else None)"

section \<open>GitHub client (utils/github_api.py)\<close>

text \<open>
  The fields of a repository dictionary and of a profile dictionary that the modelled code
  reads. \<open>description\<close>, \<open>name\<close> and \<open>bio\<close> are \<open>null\<close> in GitHub's JSON when not set.
\<close>

record gh_repo =
  repo_name :: string
  repo_full_name :: string
  repo_description :: "string option"
  repo_stars :: int
  repo_is_fork :: bool

record gh_profile =
  gh_username :: string
  gh_name :: "string option"
  gh_bio :: "string option"
  gh_followers :: int

text \<open>
  What GitHub answers. Each field is the outcome of the \<open>try\<close> block of one request of
  the client: \<open>None\<close> when the request or the reading of its JSON raised.
\<close>

record github_remote =
  gh_user_response :: "string \<Rightarrow> gh_profile option"
  gh_repos_response :: "string \<Rightarrow> string \<Rightarrow> nat \<Rightarrow> gh_repo list option"
  gh_readme_response :: "string \<Rightarrow> string \<Rightarrow> string option"
  gh_languages_response :: "string \<Rightarrow> (string \<times> int) list option"

definition gh_reserved_paths :: "string list" where
  "gh_reserved_paths = [''features'', ''pricing'', ''explore'', ''topics'', ''collections'']"

definition gh_extract_username_from_url :: "string \<Rightarrow> string option" where
  "gh_extract_username_from_url url =
     (case re_search (match_run ''github.com/'' is_name_char) url of
        Some username \<Rightarrow>
          if username \<notin> set gh_reserved_paths then Some username
          else (case re_search (match_run_slash ''github.com/'' is_name_char) url of
                  Some username2 \<Rightarrow>
                    if username2 \<notin> set gh_reserved_paths then Some username2 else None
                | None \<Rightarrow> None)
      | None \<Rightarrow>
          (case re_search (match_run_slash ''github.com/'' is_name_char) url of
             Some username2 \<Rightarrow>
               if username2 \<notin> set gh_reserved_paths then Some username2 else None
           | None \<Rightarrow> None))"

definition get_user_profile :: "github_remote \<Rightarrow> string \<Rightarrow> gh_profile option" where
  "get_user_profile gh username = gh_user_response gh username"

definition get_user_repos :: "github_remote \<Rightarrow> string \<Rightarrow> string \<Rightarrow> nat \<Rightarrow> gh_repo list" where
  "get_user_repos gh username sort_by max_results =
     (case gh_repos_response gh username sort_by max_results of
        None \<Rightarrow> []
      | Some repos \<Rightarrow> repos)"

definition get_top_repos_by_stars :: "github_remote \<Rightarrow> string \<Rightarrow> int \<Rightarrow> gh_repo list" where
  "get_top_repos_by_stars gh username max_results =
     (let repos = get_user_repos gh username ''updated'' 30;
          original_repos = filter (\<lambda>r. \<not> repo_is_fork r) repos;
          sorted_repos = sorted_reverse repo_stars original_repos
      in list_slice_to max_results sorted_repos)"

definition get_repo_readme :: "github_remote \<Rightarrow> string \<Rightarrow> string \<Rightarrow> string option" where
  "get_repo_readme gh username repo = gh_readme_response gh username repo"

text \<open>\<open>language_stats[lang] = language_stats.get(lang, 0) + bytes_count\<close>\<close>

definition add_language :: "string \<times> int \<Rightarrow> (string \<times> int) list \<Rightarrow> (string \<times> int) list" where
  "add_language entry stats =
     AList.update (fst entry)
       ((case map_of stats (fst entry) of None \<Rightarrow> 0 | Some n \<Rightarrow> n) + snd entry) stats"

definition get_user_languages :: "github_remote \<Rightarrow> string \<Rightarrow> (string \<times> int) list" where
  "get_user_languages gh username =
     fold (\<lambda>repo stats.
             if repo_is_fork repo then stats
             else (case gh_languages_response gh (repo_full_name repo) of
                     None \<Rightarrow> stats
                   | Some langs \<Rightarrow> fold add_language langs stats))
          (get_user_repos gh username ''updated'' 30) []"

text \<open>
  The dictionary that \<open>GitHubAPI.analyze_url\<close> returns: the profile and the keys added to
  it, without the activity summary, which nothing reads. \<open>top_repo\<close> and
  \<open>top_repo_readme\<close> are set only when there is a top repository.
\<close>

record gh_analysis =
  an_profile :: gh_profile
  an_top_repo :: "gh_repo option"
  an_top_repo_readme :: "string option"
  an_top_languages :: "string list"
  an_top_repos :: "gh_repo list"
  an_repo_descriptions :: "string list"

definition github_analyze_url :: "github_remote \<Rightarrow> string \<Rightarrow> gh_analysis option" where
  "github_analyze_url gh url =
     (case gh_extract_username_from_url url of
        None \<Rightarrow> None
      | Some username \<Rightarrow>
          if username = [] then None
          else (case get_user_profile gh username of
                  None \<Rightarrow> None
                | Some profile \<Rightarrow>
                    (let top_repos = get_top_repos_by_stars gh username 5;
                         languages = get_user_languages gh username;
                         top_languages = take 5 (sorted_reverse snd languages)
                     in Some \<lparr>an_profile = profile,
                              an_top_repo = (case top_repos of [] \<Rightarrow> None | r # rs \<Rightarrow> Some r),
                              an_top_repo_readme =
                                (case top_repos of [] \<Rightarrow> None
                                 | r # rs \<Rightarrow> get_repo_readme gh username (repo_name r)),
                              an_top_languages = map fst top_languages,
                              an_top_repos = top_repos,
                              an_repo_descriptions =
                                concat (map (\<lambda>r. case repo_description r of
                                                    None \<Rightarrow> []
                                                  | Some d \<Rightarrow> if d \<noteq> [] then [d] else [])
                                            top_repos)\<rparr>)))"

section \<open>Transcript summarizer (agents/summarizer_agent.py)\<close>

text \<open>
  The generative model: \<open>model system user\<close> is the text of the answer to a system
  message and a user message, and \<open>None\<close> when the call raises. A component without API key
  has no model.
\<close>

type_synonym llm = "string \<Rightarrow> string \<Rightarrow> string option"

definition summarizer_system_prompt :: string where
  "summarizer_system_prompt =
     ''You are a video content summarizer. \<newline>''
     @ ''        Create a concise 2-3 sentence summary of the video transcript.\<newline>''
     @ ''        Focus on the main topic, key points, and overall message.\<newline>''
     @ ''        Be factual and direct.''"

definition summarize_transcript :: "llm option \<Rightarrow> pyval \<Rightarrow> pyval \<Rightarrow> py_error + string" where
  "summarize_transcript model transcript video_title =
     (case model of
        None \<Rightarrow> Inr (''[Mock Summary] Video discusses: '' @ py_format video_title)
      | Some invoke \<Rightarrow>
          (case py_slice_to 3000 transcript of
             Inl err \<Rightarrow> Inl err
           | Inr head \<Rightarrow>
               (let user_prompt =
                      ''Video Title: '' @ py_format video_title @ ''\<newline>\<newline>Transcript:\<newline>''
                      @ head @ ''  \<newline>\<newline>Provide a brief summary (2-3 sentences):''
                in case invoke summarizer_system_prompt user_prompt of
                     Some content \<Rightarrow> Inr (py_strip content)
                   | None \<Rightarrow> Inr (''[Error] Could not summarize: '' @ py_format video_title))))"

text \<open>The body of the loop of \<open>summarize_multiple_transcripts\<close>, for one item.\<close>

definition summarize_item :: "llm option \<Rightarrow> pydict \<Rightarrow> py_error + pydict" where
  "summarize_item model item =
     (let title = dict_get item ''title'' (VStr ''Untitled'');
          transcript = dict_get item ''transcript'' (VStr '''');
          description = dict_get item ''description'' (VStr '''');
          summary =
            (if \<not> truthy transcript \<and> \<not> truthy description
             then Inr ''[No transcript or description available]''
             else if \<not> truthy transcript
             then (case (if truthy description then py_slice_to 200 description
                         else Inr ''No additional info'') of
                     Inl err \<Rightarrow> Inl err
                   | Inr info \<Rightarrow>
                       Inr (''Video titled '' @ [CHR 0x27] @ py_format title @ [CHR 0x27] @ '' - ''
                            @ info))
             else summarize_transcript model transcript title)
      in case summary of
           Inl err \<Rightarrow> Inl err
         | Inr text \<Rightarrow> Inr (AList.update ''summary'' (VStr text) item))"

fun summarize_multiple_transcripts :: "llm option \<Rightarrow> pydict list \<Rightarrow> py_error + pydict list" where
  "summarize_multiple_transcripts model [] = Inr []"
| "summarize_multiple_transcripts model (item # rest) =
     (case summarize_item model item of
        Inl err \<Rightarrow> Inl err
      | Inr result \<Rightarrow>
          (case summarize_multiple_transcripts model rest of
             Inl err \<Rightarrow> Inl err
           | Inr results \<Rightarrow> Inr (result # results)))"

text \<open>
  A transcript record: its transcript and its description, when present, are text or
  \<open>None\<close>.
\<close>

fun text_or_none :: "pyval \<Rightarrow> bool" where
  "text_or_none (VInt i) = False"
| "text_or_none v = True"

definition transcript_record :: "pydict \<Rightarrow> bool" where
  "transcript_record item =
     (text_or_none (dict_get item ''transcript'' VNone)
      \<and> text_or_none (dict_get item ''description'' VNone))"

text \<open>
  What the fallback policy prescribes as summary of an item: the fixed placeholder when
  neither transcript nor description is there, and otherwise, when there is no transcript,
  the sentence made of the title and the first 200 characters of the description.
\<close>

definition fallback_policy :: "pydict \<Rightarrow> string \<Rightarrow> bool" where
  "fallback_policy item text =
     ((\<not> truthy (dict_get item ''transcript'' (VStr ''''))
       \<and> \<not> truthy (dict_get item ''description'' (VStr ''''))
       \<longrightarrow> text = ''[No transcript or description available]'')
      \<and> (\<not> truthy (dict_get item ''transcript'' (VStr ''''))
          \<and> truthy (dict_get item ''description'' (VStr ''''))
          \<longrightarrow> (\<exists>d. dict_get item ''description'' (VStr '''') = VStr d
                \<and> text = ''Video titled '' @ [CHR 0x27]
                          @ py_format (dict_get item ''title'' (VStr ''Untitled''))
                          @ [CHR 0x27] @ '' - '' @ take 200 d)))"

section \<open>YouTube client (utils/youtube_api.py)\<close>

text \<open>The fields of a video dictionary of \<open>get_top_videos\<close> that the modelled code reads.\<close>

record yt_video =
  video_id :: string
  video_title :: string
  video_description :: string
  video_view_count :: int

text \<open>
  The snippet and statistics of a channel as the API answers them. The subscriber count
  is the number that the API writes as decimal text; the key is absent for a hidden count,
  and the code reads it with the default \<open>'0'\<close>.
\<close>

record yt_channel_json =
  snippet_title :: string
  snippet_description :: string
  subscriber_count :: "int json_field"

text \<open>
  What the client holds and what YouTube answers. Each answer is the outcome of the
  \<open>try\<close> block of one request: \<open>None\<close> when the request raised or found no item.
  \<open>yt_transcript_response\<close> is the outcome of the transcript service for a video.
\<close>

record youtube_remote =
  yt_api_key :: "string option"
  yt_search_response :: "string \<Rightarrow> string option"
  yt_video_response :: "string \<Rightarrow> string option"
  yt_channel_response :: "string \<Rightarrow> yt_channel_json option"
  yt_top_videos_response :: "string \<Rightarrow> nat \<Rightarrow> yt_video list option"
  yt_transcript_response :: "string \<Rightarrow> string option"

text \<open>A configuration value is there when it is set and not empty.\<close>

fun configured :: "string option \<Rightarrow> bool" where
  "configured None = False"
| "configured (Some v) = (v \<noteq> [])"

text \<open>\<open>self.youtube\<close> is built if and only if there is an API key.\<close>

definition has_youtube_service :: "youtube_remote \<Rightarrow> bool" where
  "has_youtube_service yt = configured (yt_api_key yt)"

definition get_channel_id_from_handle :: "youtube_remote \<Rightarrow> string \<Rightarrow> string option" where
  "get_channel_id_from_handle yt handle =
     (if \<not> has_youtube_service yt then None else yt_search_response yt (''@'' @ handle))"

definition get_channel_id_from_username :: "youtube_remote \<Rightarrow> string \<Rightarrow> string option" where
  "get_channel_id_from_username yt username =
     (if \<not> has_youtube_service yt then None else yt_search_response yt username)"

definition get_channel_from_video :: "youtube_remote \<Rightarrow> string \<Rightarrow> string option" where
  "get_channel_from_video yt vid =
     (if \<not> has_youtube_service yt then None else yt_video_response yt vid)"

text \<open>The pattern \<open>youtube\.com/(?:c|user)/([a-zA-Z0-9_-]+)\<close>.\<close>

definition match_custom_channel :: "string \<Rightarrow> string option" where
  "match_custom_channel s =
     (case match_run ''youtube.com/c/'' is_name_char s of
        Some g \<Rightarrow> Some g
      | None \<Rightarrow> match_run ''youtube.com/user/'' is_name_char s)"

definition extract_channel_id_from_url :: "youtube_remote \<Rightarrow> string \<Rightarrow> string option" where
  "extract_channel_id_from_url yt url =
     (case re_search (match_run ''youtube.com/channel/'' is_name_char) url of
        Some channel \<Rightarrow> Some channel
      | None \<Rightarrow>
          (case re_search (match_run ''youtube.com/@'' is_name_char) url of
             Some handle \<Rightarrow> get_channel_id_from_handle yt handle
           | None \<Rightarrow>
               (case re_search match_custom_channel url of
                  Some username \<Rightarrow> get_channel_id_from_username yt username
                | None \<Rightarrow> None)))"

text \<open>The pattern \<open>(?:youtube\.com/watch\?v=|youtu\.be/)([a-zA-Z0-9_-]{11})\<close>.\<close>

definition match_watch_or_short :: "string \<Rightarrow> string option" where
  "match_watch_or_short s =
     (case match_exact ''youtube.com/watch?v='' is_name_char 11 s of
        Some g \<Rightarrow> Some g
      | None \<Rightarrow> match_exact ''youtu.be/'' is_name_char 11 s)"

definition extract_video_id_from_url :: "string \<Rightarrow> string option" where
  "extract_video_id_from_url url =
     (case re_search match_watch_or_short url of
        Some g \<Rightarrow> Some g
      | None \<Rightarrow>
          (case re_search (match_exact ''youtube.com/embed/'' is_name_char 11) url of
             Some g \<Rightarrow> Some g
           | None \<Rightarrow> re_search (match_exact ''youtube.com/v/'' is_name_char 11) url))"

text \<open>
  The dictionary of \<open>get_channel_stats\<close>. The formatter runs inside the \<open>try\<close> block, so
  its exceptions make the result \<open>None\<close> as well: the \<open>TypeError\<close> of \<open>int(count)\<close> for a
  count that is \<open>null\<close>, and the \<open>OverflowError\<close> of the division.
\<close>

record yt_channel =
  channel_id :: string
  channel_title :: string
  channel_description :: string
  channel_subscribers :: string

definition get_channel_stats :: "youtube_remote \<Rightarrow> string \<Rightarrow> yt_channel option" where
  "get_channel_stats yt cid =
     (if \<not> has_youtube_service yt then None
      else (case yt_channel_response yt cid of
              None \<Rightarrow> None
            | Some channel \<Rightarrow>
                (case get_count (subscriber_count channel) 0 of
                   VInt cnt \<Rightarrow>
                     (case format_subscriber_count cnt of
                        Inl err \<Rightarrow> None
                      | Inr subscribers \<Rightarrow>
                          Some \<lparr>channel_id = cid, channel_title = snippet_title channel,
                                channel_description = snippet_description channel,
                                channel_subscribers = subscribers\<rparr>)
                 | other \<Rightarrow> None)))"

definition get_top_videos :: "youtube_remote \<Rightarrow> string \<Rightarrow> nat \<Rightarrow> yt_video list" where
  "get_top_videos yt cid max_results =
     (if \<not> has_youtube_service yt then []
      else (case yt_top_videos_response yt cid max_results of
              None \<Rightarrow> []
            | Some videos \<Rightarrow> videos))"

definition get_video_transcript :: "youtube_remote \<Rightarrow> string \<Rightarrow> string option" where
  "get_video_transcript yt vid = yt_transcript_response yt vid"

text \<open>
  The dictionary that \<open>YouTubeAPI.analyze_url\<close> returns. The keys \<open>top_video\<close> and
  \<open>top_video_transcript\<close> are set only when there is a top video; nothing reads them.
\<close>

record yt_analysis =
  yt_channel_data :: yt_channel
  yt_top_video :: "yt_video option"
  yt_top_video_transcript :: "string option"
  yt_top_videos :: "yt_video list"
  yt_video_titles :: "string list"

text \<open>The local variable \<open>channel_id\<close> of \<open>analyze_url\<close>.\<close>

definition resolve_channel_id :: "youtube_remote \<Rightarrow> string \<Rightarrow> string option" where
  "resolve_channel_id yt url =
     (case extract_video_id_from_url url of
        Some vid \<Rightarrow> get_channel_from_video yt vid
      | None \<Rightarrow> extract_channel_id_from_url yt url)"

definition youtube_analyze_url :: "youtube_remote \<Rightarrow> string \<Rightarrow> yt_analysis option" where
  "youtube_analyze_url yt url =
     (case resolve_channel_id yt url of
        None \<Rightarrow> None
      | Some cid \<Rightarrow>
          if cid = [] then None
          else (case get_channel_stats yt cid of
                  None \<Rightarrow> None
                | Some channel_data \<Rightarrow>
                    (let top_videos = get_top_videos yt cid 5
                     in Some \<lparr>yt_channel_data = channel_data,
                              yt_top_video = (case top_videos of [] \<Rightarrow> None | v # vs \<Rightarrow> Some v),
                              yt_top_video_transcript =
                                (case top_videos of [] \<Rightarrow> None
                                 | v # vs \<Rightarrow> get_video_transcript yt (video_id v)),
                              yt_top_videos = top_videos,
                              yt_video_titles = map video_title top_videos\<rparr>)))"

section \<open>Instagram client (utils/instagram_api.py)\<close>

text \<open>
  The objects of the Graph API; the client reads every field with \<open>get\<close>. A field that is
  read without default, or only tested for being filled, is \<open>None\<close> when the API leaves it
  out or sends \<open>null\<close>. The biography and the counts are read with a default, which
  replaces an absent key but not a \<open>null\<close>.
\<close>

record ig_profile_json =
  profile_username :: "string option"
  profile_name :: "string option"
  profile_biography :: "string json_field"
  profile_followers_count :: "int json_field"

record ig_media =
  media_caption :: "string option"
  media_type :: "string option"
  media_like_count :: "int json_field"
  media_comments_count :: "int json_field"
  media_permalink :: "string option"

text \<open>
  What the client holds and what Instagram answers: \<open>ig_discovery_response\<close> is \<open>None\<close>
  when the request raised or the answer has no filled \<open>business_discovery\<close> object, and
  \<open>ig_media_response\<close> is \<open>None\<close> when the request raised. \<open>str_title\<close> stands for Python's
  \<open>str.title\<close>, whose results leave the code points below 256.
\<close>

record instagram_remote =
  ig_access_token :: "string option"
  ig_business_account_id :: "string option"
  ig_discovery_response :: "string \<Rightarrow> ig_profile_json option"
  ig_media_response :: "string \<Rightarrow> nat \<Rightarrow> ig_media list option"
  str_title :: "string \<Rightarrow> string"

text \<open>The dictionaries that the client returns.\<close>

record ig_post =
  post_caption :: string
  post_type :: pyval
  post_likes :: pyval
  post_comments :: pyval
  post_url :: pyval

record ig_data =
  ig_username :: pyval
  ig_name :: pyval
  ig_followers :: string
  ig_bio :: pyval
  ig_top_posts :: "ig_post list"

datatype ig_result = IgError string | IgData ig_data

definition ig_reserved_paths :: "string list" where
  "ig_reserved_paths = [''p'', ''reel'', ''tv'', ''explore'', ''accounts'']"

text \<open>The class \<open>[^/?]\<close>.\<close>

definition is_segment_char :: "char \<Rightarrow> bool" where
  "is_segment_char c = (c \<noteq> CHR ''/'' \<and> c \<noteq> CHR ''?'')"

definition extract_username :: "string \<Rightarrow> string option" where
  "extract_username url =
     (case re_search (match_run ''instagram.com/'' is_segment_char) url of
        Some username \<Rightarrow>
          if username \<notin> set ig_reserved_paths then Some username
          else (case re_search (match_run ''instagr.am/'' is_segment_char) url of
                  Some username2 \<Rightarrow>
                    if username2 \<notin> set ig_reserved_paths then Some username2 else None
                | None \<Rightarrow> None)
      | None \<Rightarrow>
          (case re_search (match_run ''instagr.am/'' is_segment_char) url of
             Some username2 \<Rightarrow>
               if username2 \<notin> set ig_reserved_paths then Some username2 else None
           | None \<Rightarrow> None))"

definition get_profile_from_username :: "instagram_remote \<Rightarrow> string \<Rightarrow> ig_profile_json option" where
  "get_profile_from_username ig username =
     (if \<not> configured (ig_access_token ig) then None
      else if \<not> configured (ig_business_account_id ig) then None
      else ig_discovery_response ig username)"

definition get_recent_media_from_username :: "instagram_remote \<Rightarrow> string \<Rightarrow> nat \<Rightarrow> ig_media list" where
  "get_recent_media_from_username ig username limit =
     (if \<not> configured (ig_access_token ig) then []
      else if \<not> configured (ig_business_account_id ig) then []
      else (case ig_media_response ig username limit of None \<Rightarrow> [] | Some media \<Rightarrow> media))"

text \<open>
  Code points beyond 255 in the literals of the source are held as their UTF-8 bytes. No
  such literal is long enough to be cut by a slice.
\<close>

definition emoji_mobile_phone :: string where
  "emoji_mobile_phone = [CHR 0xF0, CHR 0x9F, CHR 0x93, CHR 0xB1]"

definition emoji_high_voltage :: string where
  "emoji_high_voltage = [CHR 0xE2, CHR 0x9A, CHR 0xA1, CHR 0xEF, CHR 0xB8, CHR 0x8F]"

definition emoji_movie_camera :: string where
  "emoji_movie_camera = [CHR 0xF0, CHR 0x9F, CHR 0x8E, CHR 0xA5]"

definition emoji_camera_flash :: string where
  "emoji_camera_flash = [CHR 0xF0, CHR 0x9F, CHR 0x93, CHR 0xB8]"

definition emoji_clapper_board :: string where
  "emoji_clapper_board = [CHR 0xF0, CHR 0x9F, CHR 0x8E, CHR 0xAC]"

definition bullet_sign :: string where
  "bullet_sign = [CHR 0xE2, CHR 0x80, CHR 0xA2]"

text \<open>\<open>s.replace(old, new)\<close> for a single character \<open>old\<close>.\<close>

definition replace_char :: "char \<Rightarrow> string \<Rightarrow> string \<Rightarrow> string" where
  "replace_char old new s = concat (map (\<lambda>c. if c = old then new else [c]) s)"

definition mkbhd_mock :: ig_data where
  "mkbhd_mock =
     \<lparr>ig_username = VStr ''mkbhd'',
      ig_name = VStr ''Marques Brownlee'',
      ig_followers = ''19.2M'',
      ig_bio = VStr (''Tech reviews and unboxings '' @ emoji_mobile_phone @ emoji_high_voltage
                     @ ''\<newline>YouTube: MKBHD\<newline>Podcast: Waveform''),
      ig_top_posts =
        [\<lparr>post_caption = ''The new iPhone 16 Pro Max is here! Full review on YouTube ''
                          @ emoji_mobile_phone,
          post_type = VStr ''IMAGE'', post_likes = VInt 892000, post_comments = VInt 12400,
          post_url = VStr ''https://instagram.com/p/sample1''\<rparr>,
         \<lparr>post_caption = ''Behind the scenes of the studio setup '' @ emoji_movie_camera,
          post_type = VStr ''VIDEO'', post_likes = VInt 756000, post_comments = VInt 9800,
          post_url = VStr ''https://instagram.com/p/sample2''\<rparr>,
         \<lparr>post_caption = ''Testing out the new camera tech '' @ emoji_camera_flash,
          post_type = VStr ''IMAGE'', post_likes = VInt 634000, post_comments = VInt 7200,
          post_url = VStr ''https://instagram.com/p/sample3''\<rparr>]\<rparr>"

definition generate_mock_data :: "instagram_remote \<Rightarrow> string \<Rightarrow> ig_data" where
  "generate_mock_data ig username =
     (if py_lower username = ''mkbhd'' then mkbhd_mock
      else
        \<lparr>ig_username = VStr username,
         ig_name = VStr (str_title ig (replace_char (CHR ''_'') '' '' username)),
         ig_followers = ''125K'',
         ig_bio = VStr (''Creator '' @ bullet_sign
                        @ '' Content enthusiast\<newline>Follow for more!''),
         ig_top_posts =
           [\<lparr>post_caption = ''Latest content creation setup '' @ emoji_clapper_board,
             post_type = VStr ''IMAGE'', post_likes = VInt 8900, post_comments = VInt 234,
             post_url = VStr (''https://instagram.com/p/'' @ username @ ''1'')\<rparr>,
            \<lparr>post_caption = ''Behind the scenes '' @ emoji_camera_flash,
             post_type = VStr ''VIDEO'', post_likes = VInt 7600, post_comments = VInt 189,
             post_url = VStr (''https://instagram.com/p/'' @ username @ ''2'')\<rparr>]\<rparr>)"

text \<open>
  \<open>InstagramAPI._format_count\<close>. The count is what \<open>get\<close> has read; comparing a value
  that is no integer with \<open>1_000_000\<close> raises \<open>TypeError\<close>.
\<close>

definition format_count :: "pyval \<Rightarrow> py_error + string" where
  "format_count cnt =
     (case cnt of
        VInt n \<Rightarrow>
          if n \<ge> 1000000 then scaled_1f n 1000000 ''M''
          else if n \<ge> 1000 then scaled_1f n 1000 ''K''
          else Inr (py_str_int n)
      | other \<Rightarrow> Inl TypeError)"

text \<open>
  \<open>sorted(media_data, key=lambda x: x.get('like_count', 0), reverse=True)\<close>. The keys are
  integers or \<open>None\<close>. Sorting two or more elements compares every key with another key,
  and a comparison with \<open>None\<close> raises \<open>TypeError\<close>; a list of at most one element is
  returned without any comparison.
\<close>

definition like_count_key :: "ig_media \<Rightarrow> pyval" where
  "like_count_key x = get_count (media_like_count x) 0"

fun int_of_key :: "pyval \<Rightarrow> int" where
  "int_of_key (VInt n) = n"
| "int_of_key other = 0"

definition sort_by_likes :: "ig_media list \<Rightarrow> py_error + ig_media list" where
  "sort_by_likes media =
     (if 2 \<le> length media \<and> list_ex (\<lambda>x. like_count_key x = VNone) media then Inl TypeError
      else Inr (sorted_reverse (\<lambda>x. int_of_key (like_count_key x)) media))"

text \<open>One entry of \<open>top_posts\<close>, built from a media object of the API.\<close>

definition post_of_media :: "ig_media \<Rightarrow> ig_post" where
  "post_of_media post =
     \<lparr>post_caption = (case media_caption post of
                         None \<Rightarrow> ''No caption''
                       | Some caption \<Rightarrow> if caption \<noteq> [] then take 100 caption else ''No caption''),
      post_type = opt_str (media_type post),
      post_likes = get_count (media_like_count post) 0,
      post_comments = get_count (media_comments_count post) 0,
      post_url = opt_str (media_permalink post)\<rparr>"

text \<open>
  \<open>InstagramAPI.analyze_url\<close>. Neither the sorting nor the formatter is inside a \<open>try\<close>
  block, so what they raise leaves the method.
\<close>

definition instagram_analyze_url :: "instagram_remote \<Rightarrow> string \<Rightarrow> py_error + ig_result" where
  "instagram_analyze_url ig url =
     (case extract_username url of
        None \<Rightarrow> Inr (IgError ''Could not extract Instagram username from URL'')
      | Some username \<Rightarrow>
          if username = [] then Inr (IgError ''Could not extract Instagram username from URL'')
          else
            (case (if configured (ig_access_token ig) \<and> configured (ig_business_account_id ig)
                   then get_profile_from_username ig username else None) of
               Some profile_data \<Rightarrow>
                 (let media_data = get_recent_media_from_username ig username 6
                  in case sort_by_likes media_data of
                       Inl err \<Rightarrow> Inl err
                     | Inr ranked \<Rightarrow>
                         (let top_posts = take 3 ranked
                          in case format_count
                                    (get_count (profile_followers_count profile_data) 0) of
                               Inl err \<Rightarrow> Inl err
                             | Inr followers \<Rightarrow>
                                 Inr (IgData
                                   \<lparr>ig_username = opt_str (profile_username profile_data),
                                    ig_name = py_or (opt_str (profile_name profile_data))
                                                    (opt_str (profile_username profile_data)),
                                    ig_followers = followers,
                                    ig_bio = get_text (profile_biography profile_data) [],
                                    ig_top_posts = map post_of_media top_posts\<rparr>)))
             | None \<Rightarrow> Inr (IgData (generate_mock_data ig username))))"

section \<open>Mock data (utils/helpers.py)\<close>

record youtube_mock_data =
  mock_platform :: string
  mock_title :: string
  mock_subscribers :: string
  mock_subscriber_count_raw :: int
  mock_view_count :: int
  mock_video_count :: int
  mock_description :: string
  mock_thumbnail :: string
  mock_video_titles :: "string list"
  mock_vibe :: string
  mock_estimated_rate :: string

definition youtube_mock :: youtube_mock_data where
  "youtube_mock =
     \<lparr>mock_platform = ''youtube'',
      mock_title = ''Demo Tech Creator'',
      mock_subscribers = ''1.5M'',
      mock_subscriber_count_raw = 1500000,
      mock_view_count = 50000000,
      mock_video_count = 234,
      mock_description = ''Tech reviews, coding tutorials, and developer content'',
      mock_thumbnail = ''https://via.placeholder.com/800x800.png?text=Demo+Creator'',
      mock_video_titles =
        [''Building a 3D Portfolio with React Three Fiber'',
         ''Why I Switched to Neovim (Developer Setup Tour)'',
         ''10 GitHub Projects That Changed My Career'',
         ''Real-time Collaboration with WebSockets'',
         ''My Honest Review of the M4 MacBook Pro''],
      mock_vibe = ''Chaotic Good Tech Reviewer'',
      mock_estimated_rate = ''$15,000 - $25,000''\<rparr>"

section \<open>More text operations\<close>

text \<open>\<open>s.split(sep)\<close> for a single character \<open>sep\<close>.\<close>

fun py_split :: "char \<Rightarrow> string \<Rightarrow> string list" where
  "py_split sep [] = [[]]"
| "py_split sep (c # cs) =
     (if c = sep then [] # py_split sep cs
      else (case py_split sep cs of
              [] \<Rightarrow> [[c]]
            | p # ps \<Rightarrow> (c # p) # ps))"

text \<open>\<open>s.split(":")[-1]\<close> and \<open>s.split(":", 1)[-1]\<close>\<close>

definition after_last_colon :: "string \<Rightarrow> string" where
  "after_last_colon s = rev (takeWhile (\<lambda>c. c \<noteq> CHR '':'') (rev s))"

definition after_first_colon :: "string \<Rightarrow> string" where
  "after_first_colon s =
     (case dropWhile (\<lambda>c. c \<noteq> CHR '':'') s of
        [] \<Rightarrow> s
      | colon # rest \<Rightarrow> rest)"

text \<open>\<open>s.strip(chars)\<close>\<close>

definition py_strip_chars :: "string \<Rightarrow> string \<Rightarrow> string" where
  "py_strip_chars chars s =
     rev (dropWhile (\<lambda>c. c \<in> set chars) (rev (dropWhile (\<lambda>c. c \<in> set chars) s)))"

text \<open>\<open>s.replace(old, new)\<close> for a non-empty \<open>old\<close>: the occurrences from the left.\<close>

function py_replace :: "string \<Rightarrow> string \<Rightarrow> string \<Rightarrow> string" where
  "py_replace old new [] = []"
| "py_replace old new (c # cs) =
     (if old \<noteq> [] \<and> prefix old (c # cs)
      then new @ py_replace old new (drop (length old - 1) cs)
      else c # py_replace old new cs)"
  by pat_completeness auto
termination
  by (relation "measure (\<lambda>(old, new, s). length s)") auto

text \<open>
  \<open>str.upper\<close> on the letters \<open>a\<close> to \<open>z\<close>. The pipeline applies it to the platform tag
  only.
\<close>

definition py_upper_char :: "char \<Rightarrow> char" where
  "py_upper_char c =
     (let n = (of_char c :: nat)
      in if 97 \<le> n \<and> n \<le> 122 then char_of (n - 32) else c)"

definition py_upper :: "string \<Rightarrow> string" where
  "py_upper s = map py_upper_char s"

text \<open>A list comprehension whose body may raise: the first exception ends it.\<close>

fun collect :: "('a \<Rightarrow> py_error + 'b) \<Rightarrow> 'a list \<Rightarrow> py_error + 'b list" where
  "collect f [] = Inr []"
| "collect f (x # xs) =
     (case f x of
        Inl err \<Rightarrow> Inl err
      | Inr y \<Rightarrow> (case collect f xs of Inl err \<Rightarrow> Inl err | Inr ys \<Rightarrow> Inr (y # ys)))"

section \<open>The analyzer agent (agents/creator_analyzer.py)\<close>

text \<open>
  The collaborators of the agent: the three clients, the model of the summarizer and the
  agent's own model.
\<close>

record analyzer_agent =
  youtube_api :: youtube_remote
  github_api :: github_remote
  instagram_api :: instagram_remote
  summarizer_llm :: "llm option"
  agent_llm :: "llm option"

text \<open>
  A value of the final output: a string, a number or \<open>None\<close>, or a list of dictionaries.
\<close>

datatype outval = OVal pyval | OItems "pydict list"

type_synonym outdict = "(string \<times> outval) list"

text \<open>
  The state dictionary. Every key is set in the initial state, so the state is a record;
  the field \<open>s_k\<close> is the key \<open>k\<close>.
\<close>

record AnalyzerState =
  s_url :: string
  s_platform :: string
  s_channel_name :: pyval
  s_subscribers :: string
  s_about :: pyval
  s_top_videos :: "pydict list"
  s_transcripts :: "pydict list"
  s_summaries :: "pydict list"
  s_content_descriptor :: string
  s_content_summary :: string
  s_final_output :: outdict
  s_error :: string

subsection \<open>Nodes\<close>

definition detect_platform_node :: "AnalyzerState \<Rightarrow> AnalyzerState" where
  "detect_platform_node state =
     (let platform = detect_platform (s_url state);
          state1 = state\<lparr>s_platform := platform_value platform\<rparr>
      in if platform = UNKNOWN
         then state1\<lparr>s_error := ''Unsupported platform. Use YouTube or GitHub URL.''\<rparr>
         else state1)"

definition mock_video_item :: "nat \<times> string \<Rightarrow> pydict" where
  "mock_video_item entry =
     [(''title'', VStr (snd entry)),
      (''video_id'', VStr (''mock_'' @ py_str_int (int (fst entry))))]"

definition video_item :: "yt_video \<Rightarrow> pydict" where
  "video_item video =
     [(''title'', VStr (video_title video)),
      (''video_id'', VStr (video_id video)),
      (''view_count'', VInt (video_view_count video)),
      (''description'', VStr (video_description video))]"

definition fetch_youtube_data_node :: "analyzer_agent \<Rightarrow> AnalyzerState \<Rightarrow> AnalyzerState" where
  "fetch_youtube_data_node agent state =
     (if \<not> configured (yt_api_key (youtube_api agent))
      then (let mock_data = youtube_mock
            in state\<lparr>s_channel_name := VStr (mock_title mock_data),
                     s_subscribers := mock_subscribers mock_data,
                     s_about := VStr (mock_description mock_data),
                     s_top_videos :=
                       map mock_video_item (enumerate 0 (take 2 (mock_video_titles mock_data)))\<rparr>)
      else (case youtube_analyze_url (youtube_api agent) (s_url state) of
              None \<Rightarrow> state\<lparr>s_error := ''Failed to fetch YouTube data''\<rparr>
            | Some data \<Rightarrow>
                state\<lparr>s_channel_name := VStr (channel_title (yt_channel_data data)),
                      s_subscribers := channel_subscribers (yt_channel_data data),
                      s_about := VStr (channel_description (yt_channel_data data)),
                      s_top_videos := map video_item (take 2 (yt_top_videos data))\<rparr>))"

definition repo_item :: "gh_repo \<Rightarrow> pydict" where
  "repo_item repo =
     [(''title'', VStr (repo_name repo)),
      (''description'', opt_str (repo_description repo)),
      (''stars'', VInt (repo_stars repo))]"

definition fetch_github_data_node :: "analyzer_agent \<Rightarrow> AnalyzerState \<Rightarrow> AnalyzerState" where
  "fetch_github_data_node agent state =
     (case github_analyze_url (github_api agent) (s_url state) of
        None \<Rightarrow> state\<lparr>s_error := ''Failed to fetch GitHub data''\<rparr>
      | Some data \<Rightarrow>
          state\<lparr>s_channel_name := py_or (opt_str (gh_name (an_profile data)))
                                         (VStr (gh_username (an_profile data))),
                s_subscribers := py_str_int (gh_followers (an_profile data)) @ '' followers'',
                s_about := opt_str (gh_bio (an_profile data)),
                s_top_videos := map repo_item (take 2 (an_top_repos data))\<rparr>)"

definition post_item :: "ig_post \<Rightarrow> pydict" where
  "post_item post =
     [(''title'', VStr (if post_caption post \<noteq> [] then take 100 (post_caption post)
                        else ''Untitled Post'')),
      (''likes'', post_likes post),
      (''comments'', post_comments post),
      (''type'', post_type post),
      (''url'', post_url post)]"

definition fetch_instagram_data_node ::
  "analyzer_agent \<Rightarrow> AnalyzerState \<Rightarrow> py_error + AnalyzerState" where
  "fetch_instagram_data_node agent state =
     (case instagram_analyze_url (instagram_api agent) (s_url state) of
        Inl err \<Rightarrow> Inl err
      | Inr (IgError message) \<Rightarrow> Inr (state\<lparr>s_error := message\<rparr>)
      | Inr (IgData data) \<Rightarrow>
          Inr (state\<lparr>s_channel_name := py_or (ig_name data) (ig_username data),
                     s_subscribers := ig_followers data @ '' followers'',
                     s_about := ig_bio data,
                     s_top_videos := map post_item (take 2 (ig_top_posts data))\<rparr>))"

text \<open>The body of the loop of \<open>get_transcripts_node\<close>, for one video.\<close>

definition transcript_item :: "analyzer_agent \<Rightarrow> pydict \<Rightarrow> py_error + pydict" where
  "transcript_item agent video =
     (let vid = dict_get video ''video_id'' VNone
      in case dict_item video ''title'' of
           Inl err \<Rightarrow> Inl err
         | Inr title \<Rightarrow>
             (let description = dict_get video ''description'' (VStr '''')
              in if \<not> truthy vid
                 then Inr [(''title'', title), (''transcript'', VNone),
                           (''description'', description)]
                 else
                   (let transcript_text =
                          (if \<not> configured (yt_api_key (youtube_api agent))
                           then VStr (''[Mock transcript for: '' @ py_format title
                                      @ ''] This video covers technical content related to the channel''
                                      @ [CHR 0x27] @ ''s niche.'')
                           else (case vid of
                                   VStr v \<Rightarrow> opt_str (get_video_transcript (youtube_api agent) v)
                                 | other \<Rightarrow> VNone))
                    in case py_slice_to 50 title of
                         Inl err \<Rightarrow> Inl err
                       | Inr shown \<Rightarrow>
                           Inr [(''title'', title), (''transcript'', transcript_text),
                                (''video_id'', vid), (''description'', description)])))"

definition get_transcripts_node ::
  "analyzer_agent \<Rightarrow> AnalyzerState \<Rightarrow> py_error + AnalyzerState" where
  "get_transcripts_node agent state =
     (case collect (transcript_item agent) (s_top_videos state) of
        Inl err \<Rightarrow> Inl err
      | Inr transcripts \<Rightarrow> Inr (state\<lparr>s_transcripts := transcripts\<rparr>))"

text \<open>
  What the node prints for one summarized item: \<open>item['title'][:40]\<close> and
  \<open>item['summary'][:80]\<close>, which raise on a missing key and on a value that is no text.
\<close>

definition printed_summary :: "pydict \<Rightarrow> py_error + string \<times> string" where
  "printed_summary item =
     (case dict_item item ''title'' of
        Inl err \<Rightarrow> Inl err
      | Inr title \<Rightarrow>
          (case py_slice_to 40 title of
             Inl err \<Rightarrow> Inl err
           | Inr shown_title \<Rightarrow>
               (case dict_item item ''summary'' of
                  Inl err \<Rightarrow> Inl err
                | Inr summary \<Rightarrow>
                    (case py_slice_to 80 summary of
                       Inl err \<Rightarrow> Inl err
                     | Inr shown_summary \<Rightarrow> Inr (shown_title, shown_summary)))))"

definition summarize_transcripts_node ::
  "analyzer_agent \<Rightarrow> AnalyzerState \<Rightarrow> py_error + AnalyzerState" where
  "summarize_transcripts_node agent state =
     (case summarize_multiple_transcripts (summarizer_llm agent) (s_transcripts state) of
        Inl err \<Rightarrow> Inl err
      | Inr summarized \<Rightarrow>
          (case collect printed_summary summarized of
             Inl err \<Rightarrow> Inl err
           | Inr printed \<Rightarrow> Inr (state\<lparr>s_summaries := summarized\<rparr>)))"

text \<open>The context lines of \<open>analyze_content_node\<close> for GitHub and for Instagram.\<close>

definition github_context_line :: "pydict \<Rightarrow> py_error + string" where
  "github_context_line v =
     (case dict_item v ''title'' of
        Inl err \<Rightarrow> Inl err
      | Inr title \<Rightarrow>
          Inr (''- '' @ py_format title @ '': ''
               @ py_format (dict_get v ''description'' (VStr ''No description''))))"

definition instagram_context_line :: "pydict \<Rightarrow> py_error + string" where
  "instagram_context_line v =
     (case dict_item v ''title'' of
        Inl err \<Rightarrow> Inl err
      | Inr title \<Rightarrow>
          Inr (''- Post: '' @ py_format title @ '' (''
               @ py_format (dict_get v ''likes'' (VInt 0)) @ '' likes, ''
               @ py_format (dict_get v ''comments'' (VInt 0)) @ '' comments)''))"

text \<open>
  The body of the loop over \<open>enumerate(summaries)\<close> for YouTube: the parts that one summary
  adds to \<open>content_parts\<close>, none or one.
\<close>

definition youtube_context_parts :: "pydict list \<Rightarrow> nat \<times> pydict \<Rightarrow> py_error + string list" where
  "youtube_context_parts top_videos entry =
     (let i = fst entry; s = snd entry;
          summary_text = dict_get s ''summary'' (VStr '''')
      in case (if truthy summary_text
               then (case summary_text of
                       VStr text \<Rightarrow> Inr (\<not> prefix ''[No'' text)
                     | other \<Rightarrow> Inl AttributeError)
               else Inr False) of
           Inl err \<Rightarrow> Inl err
         | Inr True \<Rightarrow>
             (case dict_item s ''title'' of
                Inl err \<Rightarrow> Inl err
              | Inr title \<Rightarrow>
                  Inr [''- '' @ py_format title @ '': '' @ py_format summary_text])
         | Inr False \<Rightarrow>
             if i < length top_videos
             then (let video = top_videos ! i
                   in case py_slice_to 150 (dict_get video ''description'' (VStr '''')) of
                        Inl err \<Rightarrow> Inl err
                      | Inr desc \<Rightarrow>
                          (case dict_item video ''title'' of
                             Inl err \<Rightarrow> Inl err
                           | Inr title \<Rightarrow>
                               Inr [''- '' @ py_format title @ '': ''
                                    @ (if desc \<noteq> [] then desc else ''Popular video'')]))
             else Inr [])"

definition content_context :: "AnalyzerState \<Rightarrow> py_error + string" where
  "content_context state =
     (if s_platform state = ''github''
      then (case collect github_context_line (s_top_videos state) of
              Inl err \<Rightarrow> Inl err
            | Inr parts \<Rightarrow> Inr (py_join ''\<newline>'' parts))
      else if s_platform state = ''instagram''
      then (case collect instagram_context_line (s_top_videos state) of
              Inl err \<Rightarrow> Inl err
            | Inr parts \<Rightarrow> Inr (py_join ''\<newline>'' parts))
      else (case collect (youtube_context_parts (s_top_videos state))
                         (enumerate 0 (s_summaries state)) of
              Inl err \<Rightarrow> Inl err
            | Inr partss \<Rightarrow>
                (let content_parts = concat partss
                 in if content_parts \<noteq> [] then Inr (py_join ''\<newline>'' content_parts)
                    else (case py_slice_to 200 (s_about state) of
                            Inl err \<Rightarrow> Inl err
                          | Inr about \<Rightarrow> Inr (''Channel creates content about: '' @ about)))))"

definition analyst_system_prompt :: string where
  "analyst_system_prompt =
     ''You are a content analyst. Analyze creator profiles and provide:\<newline>''
     @ ''1. A ONE-WORD descriptor that captures their content vibe (e.g., ''
     @ [CHR 0x22] @ ''Innovator'' @ [CHR 0x22] @ '', ''
     @ [CHR 0x22] @ ''Educator'' @ [CHR 0x22] @ '', ''
     @ [CHR 0x22] @ ''Reviewer'' @ [CHR 0x22] @ '')\<newline>''
     @ ''   - Do NOT use markdown formatting (no ** or __)\<newline>''
     @ ''   - Just return the single word\<newline>''
     @ ''2. A SHORT summary (1-2 sentences) describing their content style and focus\<newline>''
     @ ''\<newline>''
     @ ''Be concise and insightful.''"

definition analyst_user_prompt :: "AnalyzerState \<Rightarrow> string \<Rightarrow> string" where
  "analyst_user_prompt state context =
     ''Creator: '' @ py_format (s_channel_name state) @ ''\<newline>''
     @ ''Platform: '' @ py_upper (s_platform state) @ ''\<newline>''
     @ ''\<newline>''
     @ ''About: '' @ py_format (s_about state) @ ''\<newline>''
     @ ''\<newline>''
     @ ''Recent Content:\<newline>''
     @ context @ ''\<newline>''
     @ ''\<newline>''
     @ ''Provide:\<newline>''
     @ ''1. One-word descriptor:\<newline>''
     @ ''2. Short summary:''"

text \<open>
  The loop over the lines of the answer: a descriptor line replaces the descriptor, a summary
  line replaces the summary.
\<close>

definition parse_line :: "string \<times> string \<Rightarrow> string \<Rightarrow> string \<times> string" where
  "parse_line found line =
     (if py_in ''descriptor:'' (py_lower line) \<or> prefix ''1.'' line
      then (py_strip_chars ([CHR 0x22, CHR 0x27] @ ''*_ '') (py_strip (after_last_colon line)),
            snd found)
      else if py_in ''summary:'' (py_lower line) \<or> prefix ''2.'' line
      then (fst found, py_strip (after_first_colon line))
      else found)"

definition parse_response :: "string \<Rightarrow> string \<times> string" where
  "parse_response content =
     (let result = py_strip content;
          lines = py_split (CHR 0x0A) result;
          found = foldl parse_line (''Creator'', result) lines;
          descriptor =
            py_strip (py_replace ''_'' '''' (py_replace ''*'' ''''
                        (py_replace ''__'' '''' (py_replace ''**'' '''' (fst found)))))
      in (descriptor, snd found))"

definition analyze_content_node ::
  "analyzer_agent \<Rightarrow> AnalyzerState \<Rightarrow> py_error + AnalyzerState" where
  "analyze_content_node agent state =
     (case content_context state of
        Inl err \<Rightarrow> Inl err
      | Inr context \<Rightarrow>
          (case agent_llm agent of
             None \<Rightarrow>
               Inr (state\<lparr>s_content_descriptor := ''Tech Educator'',
                          s_content_summary :=
                            py_format (s_channel_name state)
                            @ '' creates content focused on technology, development, and innovation.''\<rparr>)
           | Some invoke \<Rightarrow>
               (case invoke analyst_system_prompt (analyst_user_prompt state context) of
                  Some content \<Rightarrow>
                    Inr (state\<lparr>s_content_descriptor := fst (parse_response content),
                               s_content_summary := snd (parse_response content)\<rparr>)
                | None \<Rightarrow>
                    Inr (state\<lparr>s_content_descriptor := ''Creator'',
                               s_content_summary :=
                                 py_format (s_channel_name state) @ '' creates content on ''
                                 @ s_platform state @ ''.''\<rparr>))))"

definition format_output_node :: "AnalyzerState \<Rightarrow> AnalyzerState" where
  "format_output_node state =
     state\<lparr>s_final_output :=
       [(''platform'', OVal (VStr (s_platform state))),
        (''channel_name'', OVal (s_channel_name state)),
        (''subscribers'', OVal (VStr (s_subscribers state))),
        (''content_descriptor'', OVal (VStr (s_content_descriptor state))),
        (''content_summary'', OVal (VStr (s_content_summary state))),
        (''about'', OVal (py_or (s_about state) (VStr ''''))),
        (''top_content'', OItems (s_top_videos state)),
        (''summaries'', OItems (s_summaries state))]\<rparr>"

subsection \<open>Routing and the graph\<close>

datatype route = route_youtube | route_github | route_instagram | route_error

definition route_by_platform :: "AnalyzerState \<Rightarrow> route" where
  "route_by_platform state =
     (if s_error state \<noteq> [] then route_error
      else if s_platform state = ''youtube'' then route_youtube
      else if s_platform state = ''github'' then route_github
      else if s_platform state = ''instagram'' then route_instagram
      else route_error)"

datatype node =
  DetectPlatform | FetchYoutubeData | FetchGithubData | FetchInstagramData
  | GetTranscripts | SummarizeTranscripts | AnalyzeContent | FormatOutput

fun run_node :: "analyzer_agent \<Rightarrow> node \<Rightarrow> AnalyzerState \<Rightarrow> py_error + AnalyzerState" where
  "run_node agent DetectPlatform state = Inr (detect_platform_node state)"
| "run_node agent FetchYoutubeData state = Inr (fetch_youtube_data_node agent state)"
| "run_node agent FetchGithubData state = Inr (fetch_github_data_node agent state)"
| "run_node agent FetchInstagramData state = fetch_instagram_data_node agent state"
| "run_node agent GetTranscripts state = get_transcripts_node agent state"
| "run_node agent SummarizeTranscripts state = summarize_transcripts_node agent state"
| "run_node agent AnalyzeContent state = analyze_content_node agent state"
| "run_node agent FormatOutput state = Inr (format_output_node state)"

text \<open>
  The edges of \<open>_build_graph\<close>: the node that follows a node in the state it returned, and
  \<open>None\<close> for \<open>END\<close>. Only \<open>detect_platform\<close> has a conditional edge.
\<close>

fun next_node :: "node \<Rightarrow> AnalyzerState \<Rightarrow> node option" where
  "next_node DetectPlatform state =
     (case route_by_platform state of
        route_youtube \<Rightarrow> Some FetchYoutubeData
      | route_github \<Rightarrow> Some FetchGithubData
      | route_instagram \<Rightarrow> Some FetchInstagramData
      | route_error \<Rightarrow> None)"
| "next_node FetchYoutubeData state = Some GetTranscripts"
| "next_node GetTranscripts state = Some SummarizeTranscripts"
| "next_node SummarizeTranscripts state = Some AnalyzeContent"
| "next_node AnalyzeContent state = Some FormatOutput"
| "next_node FormatOutput state = None"
| "next_node FetchGithubData state = Some AnalyzeContent"
| "next_node FetchInstagramData state = Some AnalyzeContent"

fun steps_to_end :: "node \<Rightarrow> nat" where
  "steps_to_end DetectPlatform = 6"
| "steps_to_end FetchYoutubeData = 5"
| "steps_to_end FetchGithubData = 5"
| "steps_to_end FetchInstagramData = 5"
| "steps_to_end GetTranscripts = 4"
| "steps_to_end SummarizeTranscripts = 3"
| "steps_to_end AnalyzeContent = 2"
| "steps_to_end FormatOutput = 1"

text \<open>
  Running the compiled graph from a node: the nodes that ran, in order, each with the
  state it returned. An exception of a node ends the run.
\<close>

function invoke_from ::
  "analyzer_agent \<Rightarrow> node \<Rightarrow> AnalyzerState \<Rightarrow> py_error + (node \<times> AnalyzerState) list" where
  "invoke_from agent n state =
     (case run_node agent n state of
        Inl err \<Rightarrow> Inl err
      | Inr state1 \<Rightarrow>
          (case next_node n state1 of
             None \<Rightarrow> Inr [(n, state1)]
           | Some n1 \<Rightarrow>
               (case invoke_from agent n1 state1 of
                  Inl err \<Rightarrow> Inl err
                | Inr trace \<Rightarrow> Inr ((n, state1) # trace))))"
  by pat_completeness auto
termination
proof (relation "measure (\<lambda>(agent, n, state). steps_to_end n)")
  show "wf (measure (\<lambda>(agent, n, state). steps_to_end n))"
    by simp
next
  fix agent :: analyzer_agent and n n1 :: node and state state1 :: AnalyzerState
  assume "next_node n state1 = Some n1"
  then show "((agent, n1, state1), (agent, n, state)) \<in> measure (\<lambda>(agent, n, state). steps_to_end n)"
    by (cases n) (auto split: route.splits)
qed

declare invoke_from.simps [simp del]

definition initial_state :: "string \<Rightarrow> AnalyzerState" where
  "initial_state url =
     \<lparr>s_url = url, s_platform = '''', s_channel_name = VStr '''', s_subscribers = '''',
      s_about = VStr '''', s_top_videos = [], s_transcripts = [], s_summaries = [],
      s_content_descriptor = '''', s_content_summary = '''', s_final_output = [],
      s_error = ''''\<rparr>"

text \<open>\<open>self.workflow.invoke(initial_state)\<close>: the trace of the run from the entry point.\<close>

definition workflow_trace ::
  "analyzer_agent \<Rightarrow> string \<Rightarrow> py_error + (node \<times> AnalyzerState) list" where
  "workflow_trace agent url = invoke_from agent DetectPlatform (initial_state url)"

definition analyze :: "analyzer_agent \<Rightarrow> string \<Rightarrow> py_error + outdict" where
  "analyze agent url =
     (case workflow_trace agent url of
        Inl err \<Rightarrow> Inl err
      | Inr trace \<Rightarrow>
          (let final_state = snd (last trace)
           in if s_error final_state \<noteq> []
              then Inr [(''error'', OVal (VStr (s_error final_state)))]
              else Inr (s_final_output final_state)))"

section \<open>Shapes of the dictionaries between the stages\<close>

text \<open>The key holds text; the key holds text or is absent.\<close>

definition text_at :: "string \<Rightarrow> pydict \<Rightarrow> bool" where
  "text_at k item = (case map_of item k of Some (VStr t) \<Rightarrow> True | other \<Rightarrow> False)"

definition text_or_absent_at :: "string \<Rightarrow> pydict \<Rightarrow> bool" where
  "text_or_absent_at k item =
     (case map_of item k of None \<Rightarrow> True | Some (VStr t) \<Rightarrow> True | other \<Rightarrow> False)"

text \<open>
  A top video of the YouTube path, a transcript record with a title, and a summarized
  record.
\<close>

definition video_shaped :: "pydict \<Rightarrow> bool" where
  "video_shaped v = (text_at ''title'' v \<and> text_or_absent_at ''description'' v)"

definition titled_record :: "pydict \<Rightarrow> bool" where
  "titled_record r = (text_at ''title'' r \<and> transcript_record r)"

definition summary_shaped :: "pydict \<Rightarrow> bool" where
  "summary_shaped x = (text_at ''title'' x \<and> text_at ''summary'' x)"

text \<open>
  The fields that the detection and fetch stages write: the profile of the creator and the
  error. \<open>keeps_profile s t\<close> says that \<open>t\<close> has them as \<open>s\<close> has.
\<close>

definition keeps_profile :: "AnalyzerState \<Rightarrow> AnalyzerState \<Rightarrow> bool" where
  "keeps_profile s t =
     (s_url t = s_url s \<and> s_platform t = s_platform s \<and> s_channel_name t = s_channel_name s
      \<and> s_subscribers t = s_subscribers s \<and> s_about t = s_about s
      \<and> s_top_videos t = s_top_videos s \<and> s_error t = s_error s)"

text \<open>
  The state after the detection stage, and the two shapes of a run that passes the routing:
  the YouTube path with its transcripts \<open>ts\<close> and summaries \<open>ss\<close>, and the path of
  GitHub and Instagram; \<open>d\<close> and \<open>m\<close> are the descriptor and the summary that the
  characterization writes.
\<close>

definition detected :: "string \<Rightarrow> AnalyzerState" where
  "detected url = detect_platform_node (initial_state url)"

definition youtube_path ::
  "AnalyzerState \<Rightarrow> AnalyzerState \<Rightarrow> pydict list \<Rightarrow> pydict list \<Rightarrow> string \<Rightarrow> string
   \<Rightarrow> (node \<times> AnalyzerState) list" where
  "youtube_path s1 s2 ts ss d m =
     [(DetectPlatform, s1),
      (FetchYoutubeData, s2),
      (GetTranscripts, s2\<lparr>s_transcripts := ts\<rparr>),
      (SummarizeTranscripts, s2\<lparr>s_transcripts := ts, s_summaries := ss\<rparr>),
      (AnalyzeContent,
       s2\<lparr>s_transcripts := ts, s_summaries := ss, s_content_descriptor := d,
          s_content_summary := m\<rparr>),
      (FormatOutput,
       format_output_node
         (s2\<lparr>s_transcripts := ts, s_summaries := ss, s_content_descriptor := d,
             s_content_summary := m\<rparr>))]"

definition short_path ::
  "node \<Rightarrow> AnalyzerState \<Rightarrow> AnalyzerState \<Rightarrow> string \<Rightarrow> string
   \<Rightarrow> (node \<times> AnalyzerState) list" where
  "short_path fetch s1 s2 d m =
     [(DetectPlatform, s1),
      (fetch, s2),
      (AnalyzeContent, s2\<lparr>s_content_descriptor := d, s_content_summary := m\<rparr>),
      (FormatOutput,
       format_output_node (s2\<lparr>s_content_descriptor := d, s_content_summary := m\<rparr>))]"

text \<open>The Instagram client returns for the URL, a profile or its error dictionary.\<close>

definition client_returns :: "analyzer_agent \<Rightarrow> string \<Rightarrow> bool" where
  "client_returns agent url =
     (case instagram_analyze_url (instagram_api agent) url of
        Inl err \<Rightarrow> False
      | Inr res \<Rightarrow> True)"

text \<open>
  The two shapes of what \<open>analyze\<close> returns: the dictionary with the single key
  \<open>error\<close> and a message, and the dictionary with the eight keys of the final output.
\<close>

definition error_result :: "outdict \<Rightarrow> bool" where
  "error_result r =
     (case r of
        [(k, OVal (VStr message))] \<Rightarrow> k = ''error'' \<and> message \<noteq> []
      | other \<Rightarrow> False)"

definition complete_result :: "outdict \<Rightarrow> bool" where
  "complete_result r =
     (map fst r = [''platform'', ''channel_name'', ''subscribers'', ''content_descriptor'',
                   ''content_summary'', ''about'', ''top_content'', ''summaries''])"

text \<open>The fetch stage of the detected platform reports a failure.\<close>

definition fetch_failed :: "analyzer_agent \<Rightarrow> string \<Rightarrow> bool" where
  "fetch_failed agent url =
     (case detect_platform url of
        YOUTUBE \<Rightarrow> configured (yt_api_key (youtube_api agent))
                   \<and> youtube_analyze_url (youtube_api agent) url = None
      | GITHUB \<Rightarrow> github_analyze_url (github_api agent) url = None
      | INSTAGRAM \<Rightarrow> (case instagram_analyze_url (instagram_api agent) url of
                        Inr (IgError message) \<Rightarrow> True
                      | other \<Rightarrow> False)
      | UNKNOWN \<Rightarrow> False)"

text \<open>The stages on the path of a detected platform, in the order of the edges.\<close>

definition path_of :: "PlatformType \<Rightarrow> node list" where
  "path_of platform =
     (case platform of
        YOUTUBE \<Rightarrow> [DetectPlatform, FetchYoutubeData, GetTranscripts, SummarizeTranscripts,
                    AnalyzeContent, FormatOutput]
      | GITHUB \<Rightarrow> [DetectPlatform, FetchGithubData, AnalyzeContent, FormatOutput]
      | INSTAGRAM \<Rightarrow> [DetectPlatform, FetchInstagramData, AnalyzeContent, FormatOutput]
      | UNKNOWN \<Rightarrow> [DetectPlatform])"

section \<open>Example data on which the theorems are exercised\<close>

text \<open>A repository list in which a fork has the most stars.\<close>

definition example_repos :: "gh_repo list" where
  "example_repos =
     [\<lparr>repo_name = ''notes'', repo_full_name = ''octo/notes'', repo_description = None,
       repo_stars = 5, repo_is_fork = False\<rparr>,
      \<lparr>repo_name = ''linux'', repo_full_name = ''octo/linux'',
       repo_description = Some ''Linux kernel source tree'', repo_stars = 900,
       repo_is_fork = True\<rparr>,
      \<lparr>repo_name = ''tool'', repo_full_name = ''octo/tool'',
       repo_description = Some ''A command line tool'', repo_stars = 40, repo_is_fork = False\<rparr>,
      \<lparr>repo_name = ''site'', repo_full_name = ''octo/site'', repo_description = None,
       repo_stars = 7, repo_is_fork = False\<rparr>]"

definition example_github :: github_remote where
  "example_github =
     \<lparr>gh_user_response = (\<lambda>u. if u = ''octo''
         then Some \<lparr>gh_username = ''octo'', gh_name = None, gh_bio = None, gh_followers = 1500\<rparr>
         else None),
      gh_repos_response = (\<lambda>u s n. if u = ''octo'' then Some example_repos else None),
      gh_readme_response = (\<lambda>u r. None),
      gh_languages_response = (\<lambda>f. None)\<rparr>"

text \<open>Transcript records without text, with a long description only, and with a transcript.\<close>

definition example_transcripts :: "pydict list" where
  "example_transcripts =
     [[(''title'', VStr ''Intro''), (''transcript'', VNone), (''video_id'', VStr ''v1''),
       (''description'', VStr '''')],
      [(''title'', VStr ''Deep dive''), (''transcript'', VStr ''''), (''video_id'', VStr ''v2''),
       (''description'', VStr (replicate 250 (CHR ''d'')))],
      [(''title'', VStr ''Talk''), (''transcript'', VStr ''Hello and welcome''),
       (''video_id'', VStr ''v3''), (''description'', VStr ''A talk'')]]"

text \<open>A YouTube client without API key, and Instagram clients without and with credentials.\<close>

definition example_youtube :: youtube_remote where
  "example_youtube =
     \<lparr>yt_api_key = None,
      yt_search_response = (\<lambda>q. None),
      yt_video_response = (\<lambda>v. None),
      yt_channel_response = (\<lambda>c. None),
      yt_top_videos_response = (\<lambda>c n. None),
      yt_transcript_response = (\<lambda>v. None)\<rparr>"

definition example_instagram :: instagram_remote where
  "example_instagram =
     \<lparr>ig_access_token = None,
      ig_business_account_id = None,
      ig_discovery_response = (\<lambda>u. None),
      ig_media_response = (\<lambda>u n. None),
      str_title = (\<lambda>s. s)\<rparr>"

definition example_media :: "ig_media list" where
  "example_media =
     [\<lparr>media_caption = Some ''Sunset'', media_type = Some ''IMAGE'', media_like_count = JValue 20,
       media_comments_count = JValue 2, media_permalink = Some ''https://instagram.com/p/a''\<rparr>,
      \<lparr>media_caption = None, media_type = Some ''VIDEO'', media_like_count = JValue 50,
       media_comments_count = JAbsent, media_permalink = Some ''https://instagram.com/p/b''\<rparr>]"

definition example_instagram_live :: instagram_remote where
  "example_instagram_live =
     \<lparr>ig_access_token = Some ''token'',
      ig_business_account_id = Some ''17841400000000000'',
      ig_discovery_response =
        (\<lambda>u. Some \<lparr>profile_username = Some u, profile_name = None,
                    profile_biography = JAbsent, profile_followers_count = JValue 1500000\<rparr>),
      ig_media_response = (\<lambda>u n. Some example_media),
      str_title = (\<lambda>s. s)\<rparr>"

text \<open>
  An Instagram client with credentials to which the API answers a profile whose follower
  count is \<open>null\<close>.
\<close>

definition example_instagram_null :: instagram_remote where
  "example_instagram_null =
     \<lparr>ig_access_token = Some ''token'',
      ig_business_account_id = Some ''17841400000000000'',
      ig_discovery_response =
        (\<lambda>u. Some \<lparr>profile_username = Some u, profile_name = None,
                    profile_biography = JAbsent, profile_followers_count = JNull\<rparr>),
      ig_media_response = (\<lambda>u n. Some example_media),
      str_title = (\<lambda>s. s)\<rparr>"

text \<open>
  Agents without any model: one without credentials, one with Instagram credentials, and
  one with Instagram credentials and the \<open>null\<close> follower count.
\<close>

definition example_agent :: analyzer_agent where
  "example_agent =
     \<lparr>youtube_api = example_youtube, github_api = example_github,
      instagram_api = example_instagram, summarizer_llm = None, agent_llm = None\<rparr>"

definition example_agent_live :: analyzer_agent where
  "example_agent_live =
     \<lparr>youtube_api = example_youtube, github_api = example_github,
      instagram_api = example_instagram_live, summarizer_llm = None, agent_llm = None\<rparr>"

definition example_agent_null :: analyzer_agent where
  "example_agent_null =
     \<lparr>youtube_api = example_youtube, github_api = example_github,
      instagram_api = example_instagram_null, summarizer_llm = None, agent_llm = None\<rparr>"

text \<open>
  A YouTube client with an API key, to which the API answers a channel of 1,500,000,000
  subscribers and no video, and an agent that has it and the Instagram credentials.
\<close>

definition example_youtube_live :: youtube_remote where
  "example_youtube_live =
     \<lparr>yt_api_key = Some ''key'',
      yt_search_response = (\<lambda>q. None),
      yt_video_response = (\<lambda>v. None),
      yt_channel_response =
        (\<lambda>c. Some \<lparr>snippet_title = ''Maker'', snippet_description = ''Things that work'',
                    subscriber_count = JValue 1500000000\<rparr>),
      yt_top_videos_response = (\<lambda>c n. None),
      yt_transcript_response = (\<lambda>v. None)\<rparr>"

definition example_agent_keys :: analyzer_agent where
  "example_agent_keys =
     \<lparr>youtube_api = example_youtube_live, github_api = example_github,
      instagram_api = example_instagram_live, summarizer_llm = None, agent_llm = None\<rparr>"

text \<open>What the Instagram client with credentials returns for the example media.\<close>

definition example_live_data :: ig_data where
  "example_live_data =
     \<lparr>ig_username = VStr ''creator'',
      ig_name = VStr ''creator'',
      ig_followers = ''1.5M'',
      ig_bio = VStr [],
      ig_top_posts =
        [\<lparr>post_caption = ''No caption'', post_type = VStr ''VIDEO'', post_likes = VInt 50,
          post_comments = VInt 0, post_url = VStr ''https://instagram.com/p/b''\<rparr>,
         \<lparr>post_caption = ''Sunset'', post_type = VStr ''IMAGE'', post_likes = VInt 20,
          post_comments = VInt 2, post_url = VStr ''https://instagram.com/p/a''\<rparr>]\<rparr>"

section \<open>Evaluation rules\<close>

lemmas number_format_eval =
  format_large_number_def format_subscriber_count_def format_count_def scaled_1f_def
  py_truediv_def floor_log2_def bit_length.simps round_half_even_def Let_def
  digits_of_nat.simps digit_char_def py_str_int_def

section \<open>The shared number formatter\<close>

text \<open>
  Claim C10. \<open>format_large_number\<close> does not always pick the largest applicable unit:
  just below a band threshold the rounding to one decimal carries into the next magnitude
  while the unit letter stays that of the lower band. \<open>format_large_number(999999)\<close> is
  \<open>"1000.0K"\<close>, not \<open>"1.0M"\<close>, and \<open>format_large_number(999999999)\<close> is
  \<open>"1000.0M"\<close>, not \<open>"1.0B"\<close>.
\<close>

theorem format_large_number_carries_below_threshold:
  "format_large_number 999999 = Inr ''1000.0K''
   \<and> format_large_number 999999 \<noteq> Inr ''1.0M''
   \<and> format_large_number 999999999 = Inr ''1000.0M''
   \<and> format_large_number 999999999 \<noteq> Inr ''1.0B''"
  by (simp add: number_format_eval)

section \<open>The range of the division: counts below \<open>10 ^ 300\<close> never overflow\<close>

lemma bit_length_bound: "0 < a \<Longrightarrow> 2 ^ bit_length a \<le> 2 * a"
proof (induction a rule: bit_length.induct)
  case (1 n)
  show ?case
  proof (cases "n div 2 = 0")
    case True
    with 1 have "n = 1"
      by (auto simp: div_eq_0_iff)
    then show ?thesis
      by (simp add: bit_length.simps)
  next
    case False
    with 1 have "2 ^ bit_length (n div 2) \<le> 2 * (n div 2)"
      by simp
    also have "\<dots> \<le> n"
      by simp
    finally show ?thesis
      using 1(2) by (simp add: bit_length.simps [of n])
  qed
qed

lemma round_half_even_le: "round_half_even a b \<le> a div b + 1"
  by (simp add: round_half_even_def Let_def)

lemma floor_log2_le: "floor_log2 a b \<le> int (bit_length a)"
  by (simp add: floor_log2_def Let_def)

lemma py_truediv_finite:
  assumes "a < 2 ^ 1022" "0 < b"
  shows "\<exists>x. py_truediv a b = Inr x"
proof (cases "a = 0")
  case True
  with assms show ?thesis
    by (simp add: py_truediv_def)
next
  case False
  define e where "e = max (floor_log2 a b - 52) (- 1074)"
  define m where "m = (if 0 \<le> e then round_half_even a (b * 2 ^ nat e)
                       else round_half_even (a * 2 ^ nat (- e)) b)"
  have "m * 2 ^ nat e < 2 ^ 1024" if e: "0 \<le> e"
  proof -
    let ?c = "b * 2 ^ nat e"
    have "nat e \<le> bit_length a"
      using floor_log2_le [of a b] e by (simp add: e_def)
    then have "(2::nat) ^ nat e \<le> 2 ^ bit_length a"
      by (simp add: power_increasing)
    also have "\<dots> \<le> 2 * a"
      using False by (simp add: bit_length_bound)
    finally have p: "(2::nat) ^ nat e \<le> 2 * a" .
    have "m \<le> a div ?c + 1"
      using e round_half_even_le [of a ?c] by (simp add: m_def)
    then have "m * 2 ^ nat e \<le> (a div ?c + 1) * 2 ^ nat e"
      by (rule mult_le_mono1)
    then have r1: "m * 2 ^ nat e \<le> (a div ?c) * 2 ^ nat e + 2 ^ nat e"
      by (simp add: add_mult_distrib)
    have "(2::nat) ^ nat e \<le> ?c"
      using assms(2) by simp
    then have r2: "(a div ?c) * 2 ^ nat e \<le> (a div ?c) * ?c"
      by (rule mult_le_mono2)
    have r3: "(a div ?c) * ?c \<le> a"
      by simp
    from r1 r2 r3 have "m * 2 ^ nat e \<le> a + 2 ^ nat e"
      by linarith
    with p have "m * 2 ^ nat e \<le> 3 * a"
      by simp
    also have "\<dots> < 3 * 2 ^ 1022"
      using assms(1) by simp
    also have "\<dots> < (2::nat) ^ 1024"
      by simp
    finally show ?thesis .
  qed
  then have "\<not> (0 \<le> e \<and> 2 ^ 1024 \<le> m * 2 ^ nat e)"
    by auto
  then have "py_truediv a b = Inr (PyFloat m e)"
    using False assms(2) unfolding py_truediv_def Let_def e_def [symmetric] m_def [symmetric]
    by simp
  then show ?thesis
    by blast
qed

lemma scaled_1f_finite:
  assumes "n < 10 ^ 300" "0 < d"
  shows "\<exists>s. scaled_1f n d u = Inr s"
proof -
  have "(10::int) ^ 300 < 2 ^ 1022"
    by simp
  with assms(1) have "n < 2 ^ 1022"
    by linarith
  then have "nat n < 2 ^ 1022"
    by (simp add: nat_less_iff)
  from py_truediv_finite [OF this assms(2)] show ?thesis
    by (auto simp: scaled_1f_def)
qed

lemma format_count_finite:
  assumes "n < 10 ^ 300"
  shows "\<exists>s. format_count (VInt n) = Inr s"
  using scaled_1f_finite [OF assms, of 1000000 "''M''"] scaled_1f_finite [OF assms, of 1000 "''K''"]
  by (auto simp: format_count_def)

text \<open>A count beyond the range of a double: the division of the formatter raises.\<close>

lemma format_count_overflows: "format_count (VInt (2 * 10 ^ 314)) = Inl OverflowError"
  by (simp add: format_count_def scaled_1f_def py_truediv_def floor_log2_def bit_length.simps
      round_half_even_def Let_def)

section \<open>Platform detection: proofs\<close>

lemmas text_eval =
  py_lower_def py_lower_char_def char_of_def bit_Suc_0_iff py_strip_def py_isspace_def

lemma py_in_sublist: "py_in sub s \<longleftrightarrow> sublist sub s"
  by (induction s) (auto simp: sublist_Cons_right)

lemma py_in_iff: "py_in sub s \<longleftrightarrow> (\<exists>pre post. s = pre @ sub @ post)"
  by (simp add: py_in_sublist sublist_def)

lemma occurs_iff_lower: "occurs_ignoring_case f url \<longleftrightarrow> sublist f (py_lower url)"
proof
  assume "occurs_ignoring_case f url"
  then obtain b p a where "url = b @ p @ a" "py_lower p = f"
    by (auto simp: occurs_ignoring_case_def)
  then have "py_lower url = py_lower b @ f @ py_lower a"
    by (simp add: py_lower_def)
  then show "sublist f (py_lower url)"
    by (auto simp: sublist_def)
next
  assume "sublist f (py_lower url)"
  then obtain ps ss where eq: "map py_lower_char url = ps @ f @ ss"
    by (auto simp: sublist_def py_lower_def)
  let ?b = "take (length ps) url"
  let ?p = "take (length f) (drop (length ps) url)"
  let ?a = "drop (length f) (drop (length ps) url)"
  have "url = ?b @ ?p @ ?a"
    by (metis append_take_drop_id)
  moreover have "py_lower ?p = take (length f) (drop (length ps) (map py_lower_char url))"
    by (simp add: py_lower_def take_map drop_map)
  then have "py_lower ?p = f"
    by (simp add: eq)
  ultimately show "occurs_ignoring_case f url"
    unfolding occurs_ignoring_case_def by blast
qed

lemma sublist_dropWhile:
  assumes "f \<noteq> []" "\<not> P (hd f)"
  shows "sublist f (dropWhile P s) \<longleftrightarrow> sublist f s"
proof
  assume "sublist f (dropWhile P s)"
  moreover have "suffix (dropWhile P s) s"
    by (rule suffix_dropWhile)
  ultimately show "sublist f s"
    by (meson sublist_order.order.trans suffix_imp_sublist)
next
  assume "sublist f s"
  then obtain ps ss where s: "s = ps @ f @ ss"
    by (auto simp: sublist_def)
  from assms have "dropWhile P (f @ ss) = f @ ss"
    by (cases f) auto
  then show "sublist f (dropWhile P s)"
    unfolding s by (auto simp: dropWhile_append)
qed

lemma sublist_strip:
  assumes "f \<noteq> []" "\<not> py_isspace (hd f)" "\<not> py_isspace (last f)"
  shows "sublist f (py_strip s) \<longleftrightarrow> sublist f s"
proof -
  have "sublist f (py_strip s) \<longleftrightarrow> sublist (rev f) (dropWhile py_isspace (rev (dropWhile py_isspace s)))"
    unfolding py_strip_def by (metis sublist_rev rev_rev_ident)
  also have "\<dots> \<longleftrightarrow> sublist (rev f) (rev (dropWhile py_isspace s))"
    using assms by (intro sublist_dropWhile) (auto simp: hd_rev)
  also have "\<dots> \<longleftrightarrow> sublist f (dropWhile py_isspace s)"
    by (simp add: sublist_rev)
  also have "\<dots> \<longleftrightarrow> sublist f s"
    using assms by (intro sublist_dropWhile) auto
  finally show ?thesis .
qed


lemma fragment_occurs:
  assumes "f \<noteq> []" "\<not> py_isspace (hd f)" "\<not> py_isspace (last f)"
  shows "py_in f (py_strip (py_lower url)) \<longleftrightarrow> occurs_ignoring_case f url"
  using assms by (simp add: py_in_sublist sublist_strip occurs_iff_lower)

lemma occurs_ignoring_case_eval:
  "occurs_ignoring_case f url \<longleftrightarrow> py_in f (py_lower url)"
  by (simp add: occurs_iff_lower py_in_sublist)

lemmas mentions_eval =
  mentions_youtube_def mentions_github_def mentions_instagram_def occurs_ignoring_case_eval

lemma detect_platform_mentions:
  "detect_platform url =
     (if mentions_youtube url then YOUTUBE
      else if mentions_github url then GITHUB
      else if mentions_instagram url then INSTAGRAM
      else UNKNOWN)"
proof -
  have "py_in ''youtube.com'' (py_strip (py_lower url)) = occurs_ignoring_case ''youtube.com'' url"
    by (rule fragment_occurs) (simp_all add: py_isspace_def)
  moreover have "py_in ''youtu.be'' (py_strip (py_lower url)) = occurs_ignoring_case ''youtu.be'' url"
    by (rule fragment_occurs) (simp_all add: py_isspace_def)
  moreover have "py_in ''github.com'' (py_strip (py_lower url)) = occurs_ignoring_case ''github.com'' url"
    by (rule fragment_occurs) (simp_all add: py_isspace_def)
  moreover have "py_in ''instagram.com'' (py_strip (py_lower url)) = occurs_ignoring_case ''instagram.com'' url"
    by (rule fragment_occurs) (simp_all add: py_isspace_def)
  moreover have "py_in ''instagr.am'' (py_strip (py_lower url)) = occurs_ignoring_case ''instagr.am'' url"
    by (rule fragment_occurs) (simp_all add: py_isspace_def)
  ultimately show ?thesis
    by (simp add: detect_platform_def Let_def mentions_youtube_def mentions_github_def
        mentions_instagram_def)
qed

text \<open>
  Claim C4. A URL in which a known hostname fragment occurs, in any letter case and with
  anything before and after it, is detected as that fragment's platform, the fragments being
  tried in the order YouTube, GitHub, Instagram and the first hit deciding; a URL in which no
  known fragment occurs is detected as Unknown.
\<close>

theorem detect_platform_first_fragment_wins:
  "(mentions_youtube url \<longrightarrow> detect_platform url = YOUTUBE)
   \<and> (\<not> mentions_youtube url \<and> mentions_github url \<longrightarrow> detect_platform url = GITHUB)
   \<and> (\<not> mentions_youtube url \<and> \<not> mentions_github url \<and> mentions_instagram url
        \<longrightarrow> detect_platform url = INSTAGRAM)
   \<and> (\<not> mentions_youtube url \<and> \<not> mentions_github url \<and> \<not> mentions_instagram url
        \<longrightarrow> detect_platform url = UNKNOWN)"
  by (simp add: detect_platform_mentions)

theorem detect_platform_first_fragment_wins_witness:
  "mentions_youtube ''  HTTPS://WWW.YouTube.COM/@mkbhd?x=github.com ''
   \<and> detect_platform ''  HTTPS://WWW.YouTube.COM/@mkbhd?x=github.com '' = YOUTUBE
   \<and> \<not> mentions_youtube ''GitHub.com/torvalds/instagram.com''
   \<and> mentions_github ''GitHub.com/torvalds/instagram.com''
   \<and> detect_platform ''GitHub.com/torvalds/instagram.com'' = GITHUB
   \<and> \<not> mentions_youtube ''http://instagr.am/mkbhd/''
   \<and> \<not> mentions_github ''http://instagr.am/mkbhd/''
   \<and> mentions_instagram ''http://instagr.am/mkbhd/''
   \<and> detect_platform ''http://instagr.am/mkbhd/'' = INSTAGRAM
   \<and> \<not> mentions_youtube ''https://twitter.com/user''
   \<and> \<not> mentions_github ''https://twitter.com/user''
   \<and> \<not> mentions_instagram ''https://twitter.com/user''
   \<and> detect_platform ''https://twitter.com/user'' = UNKNOWN"
  using detect_platform_first_fragment_wins [of "''  HTTPS://WWW.YouTube.COM/@mkbhd?x=github.com ''"]
    detect_platform_first_fragment_wins [of "''GitHub.com/torvalds/instagram.com''"]
    detect_platform_first_fragment_wins [of "''http://instagr.am/mkbhd/''"]
    detect_platform_first_fragment_wins [of "''https://twitter.com/user''"]
  by (simp add: mentions_eval text_eval)

section \<open>GitHub client: proofs\<close>

lemma set_sorted_reverse [simp]: "set (sorted_reverse k xs) = set xs"
  by (simp add: sorted_reverse_def)

lemma length_sorted_reverse [simp]: "length (sorted_reverse k xs) = length xs"
  by (simp add: sorted_reverse_def)

lemma mset_sorted_reverse [simp]: "mset (sorted_reverse k xs) = mset xs"
  by (simp add: sorted_reverse_def)

lemma sorted_reverse_descending:
  "sorted_wrt (\<lambda>a b. k b \<le> k a) (sorted_reverse k xs)"
proof -
  have "sorted (map (\<lambda>x. - k x) (sort_key (\<lambda>x. - k x) xs))"
    by (rule sorted_sort_key)
  then show ?thesis
    by (simp add: sorted_reverse_def sorted_map)
qed

lemma sorted_reverse_stable:
  "filter (\<lambda>x. k x = v) (sorted_reverse k xs) = filter (\<lambda>x. k x = v) xs"
proof -
  have "filter (\<lambda>x. - k x = - v) (sort_key (\<lambda>x. - k x) xs) = filter (\<lambda>x. - k x = - v) xs"
    by (rule sort_key_stable)
  then show ?thesis
    by (simp add: sorted_reverse_def)
qed

lemma list_slice_to_take: "\<exists>m. list_slice_to n xs = take m xs"
  by (auto simp: list_slice_to_def)

lemma list_slice_to_nonneg: "0 \<le> n \<Longrightarrow> list_slice_to n xs = take (nat n) xs"
  by (simp add: list_slice_to_def)

lemma sorted_wrt_take_drop:
  assumes "sorted_wrt P xs" "a \<in> set (take m xs)" "b \<in> set (drop m xs)"
  shows "P a b"
proof -
  have "sorted_wrt P (take m xs @ drop m xs)"
    using assms(1) by simp
  then show ?thesis
    using assms(2,3) unfolding sorted_wrt_append by blast
qed

lemma top_repos_props:
  fixes gh username n
  defines "repos \<equiv> get_user_repos gh username ''updated'' 30"
  defines "out \<equiv> get_top_repos_by_stars gh username n"
  shows "\<forall>r\<in>set out. \<not> repo_is_fork r \<and> r \<in> set repos"
    and "sorted_wrt (\<lambda>a b. repo_stars b \<le> repo_stars a) out"
    and "0 \<le> n \<longrightarrow> length out = min (nat n) (length (filter (\<lambda>r. \<not> repo_is_fork r) repos))"
    and "0 \<le> n \<longrightarrow> (\<forall>r\<in>set repos. \<not> repo_is_fork r \<and> r \<notin> set out
            \<longrightarrow> (\<forall>t\<in>set out. repo_stars r \<le> repo_stars t))"
    and "mset out \<subseteq># mset (filter (\<lambda>r. \<not> repo_is_fork r) repos)"
proof -
  let ?ranking = "sorted_reverse repo_stars (filter (\<lambda>r. \<not> repo_is_fork r) repos)"
  have out: "out = list_slice_to n ?ranking"
    by (simp add: out_def repos_def get_top_repos_by_stars_def Let_def)
  obtain m where m: "out = take m ?ranking"
    using list_slice_to_take out by metis
  have sub: "set out \<subseteq> set ?ranking"
    unfolding m by (rule set_take_subset)
  then show "\<forall>r\<in>set out. \<not> repo_is_fork r \<and> r \<in> set repos"
    by auto
  have desc: "sorted_wrt (\<lambda>a b. repo_stars b \<le> repo_stars a) ?ranking"
    by (rule sorted_reverse_descending)
  then show "sorted_wrt (\<lambda>a b. repo_stars b \<le> repo_stars a) out"
    unfolding m by (rule sorted_wrt_take)
  show "0 \<le> n \<longrightarrow> length out = min (nat n) (length (filter (\<lambda>r. \<not> repo_is_fork r) repos))"
    by (auto simp: out list_slice_to_nonneg)
  show "0 \<le> n \<longrightarrow> (\<forall>r\<in>set repos. \<not> repo_is_fork r \<and> r \<notin> set out
            \<longrightarrow> (\<forall>t\<in>set out. repo_stars r \<le> repo_stars t))"
  proof (intro impI ballI)
    fix r t
    assume n: "0 \<le> n" and r: "r \<in> set repos" "\<not> repo_is_fork r \<and> r \<notin> set out"
      and t: "t \<in> set out"
    have o: "out = take (nat n) ?ranking"
      using n by (simp add: out list_slice_to_nonneg)
    have "r \<in> set ?ranking"
      using r by simp
    then have "r \<in> set (take (nat n) ?ranking) \<union> set (drop (nat n) ?ranking)"
      by (metis append_take_drop_id set_append)
    with r o have "r \<in> set (drop (nat n) ?ranking)"
      by auto
    with desc t show "repo_stars r \<le> repo_stars t"
      unfolding o by (rule sorted_wrt_take_drop)
  qed
  have "mset (take m ?ranking) + mset (drop m ?ranking) = mset ?ranking"
    by (metis append_take_drop_id mset_append)
  then have "mset (take m ?ranking) \<subseteq># mset ?ranking"
    by (metis mset_subset_eq_add_left)
  then show "mset out \<subseteq># mset (filter (\<lambda>r. \<not> repo_is_fork r) repos)"
    unfolding m by simp
qed

text \<open>
  Claim C7. Whatever repository list GitHub returns, the result of
  \<open>get_top_repos_by_stars\<close> holds no fork, however many stars a fork has; it holds
  repositories of the list only, in decreasing order of stars; for a maximum \<open>n \<ge> 0\<close> it
  has \<open>n\<close> entries, or all non-forks when there are fewer; no non-fork left out has
  more stars than an entry; and no repository is in the result more often than among the
  non-forks of the list.
\<close>

theorem get_top_repos_by_stars_ranks_non_forks:
  "(\<forall>r\<in>set (get_top_repos_by_stars gh username n).
       \<not> repo_is_fork r \<and> r \<in> set (get_user_repos gh username ''updated'' 30))
   \<and> sorted_wrt (\<lambda>a b. repo_stars b \<le> repo_stars a) (get_top_repos_by_stars gh username n)
   \<and> (0 \<le> n \<longrightarrow>
        length (get_top_repos_by_stars gh username n)
        = min (nat n)
            (length (filter (\<lambda>r. \<not> repo_is_fork r) (get_user_repos gh username ''updated'' 30))))
   \<and> (0 \<le> n \<longrightarrow>
        (\<forall>r\<in>set (get_user_repos gh username ''updated'' 30).
           \<not> repo_is_fork r \<and> r \<notin> set (get_top_repos_by_stars gh username n)
           \<longrightarrow> (\<forall>t\<in>set (get_top_repos_by_stars gh username n).
                  repo_stars r \<le> repo_stars t)))
   \<and> mset (get_top_repos_by_stars gh username n)
       \<subseteq># mset (filter (\<lambda>r. \<not> repo_is_fork r)
                      (get_user_repos gh username ''updated'' 30))"
  using top_repos_props [where gh = gh and username = username and n = n] by blast

theorem get_top_repos_by_stars_ranks_non_forks_witness:
  "get_user_repos example_github ''octo'' ''updated'' 30 = example_repos
   \<and> repo_is_fork (example_repos ! 1) \<and> repo_stars (example_repos ! 1) = 900
   \<and> get_top_repos_by_stars example_github ''octo'' 2 = [example_repos ! 2, example_repos ! 3]
   \<and> map repo_stars (get_top_repos_by_stars example_github ''octo'' 2) = [40, 7]
   \<and> map repo_is_fork (get_top_repos_by_stars example_github ''octo'' 2) = [False, False]
   \<and> example_repos ! 0 \<notin> set (get_top_repos_by_stars example_github ''octo'' 2)
   \<and> repo_stars (example_repos ! 0) = 5"
  using get_top_repos_by_stars_ranks_non_forks [of example_github "''octo''" 2]
  by (simp add: get_top_repos_by_stars_def get_user_repos_def sorted_reverse_def
      list_slice_to_def example_github_def example_repos_def)

section \<open>Transcript summarizer: proofs\<close>

lemma summarize_multiple_all2:
  "summarize_multiple_transcripts model items = Inr out
   \<longleftrightarrow> list_all2 (\<lambda>item r. summarize_item model item = Inr r) items out"
proof (induction items arbitrary: out)
  case Nil
  then show ?case by auto
next
  case (Cons item rest)
  show ?case
  proof (cases "summarize_item model item")
    case (Inl e)
    then show ?thesis by (auto simp: list_all2_Cons1)
  next
    case (Inr r)
    then show ?thesis
      using Cons.IH by (cases "summarize_multiple_transcripts model rest") (auto simp: list_all2_Cons1)
  qed
qed

lemma text_or_none_cases: "text_or_none v \<Longrightarrow> v = VNone \<or> (\<exists>s. v = VStr s)"
  by (cases v) auto

lemma dict_get_default: "dict_get d k dflt = (case map_of d k of None \<Rightarrow> dflt | Some v \<Rightarrow> v)"
  by (simp add: dict_get_def)

lemma text_or_none_get:
  assumes "text_or_none (dict_get item k VNone)"
  shows "text_or_none (dict_get item k (VStr s))"
  using assms by (auto simp: dict_get_def split: option.splits)

lemma summarize_transcript_text:
  assumes "text_or_none t" "truthy t"
  shows "\<exists>s. summarize_transcript model t title = Inr s"
proof -
  from assms obtain x where "t = VStr x"
    by (cases t) auto
  then show ?thesis
    by (auto simp: summarize_transcript_def Let_def split: option.splits)
qed

lemma summarize_item_record:
  assumes "transcript_record item"
  shows "\<exists>text. summarize_item model item = Inr (AList.update ''summary'' (VStr text) item)
     \<and> fallback_policy item text"
proof -
  let ?t = "dict_get item ''transcript'' (VStr '''')"
  let ?d = "dict_get item ''description'' (VStr '''')"
  have tt: "text_or_none ?t" and td: "text_or_none ?d"
    using assms by (auto simp: transcript_record_def intro: text_or_none_get)
  show ?thesis
  proof (cases "truthy ?t")
    case True
    then obtain s where "summarize_transcript model ?t (dict_get item ''title'' (VStr ''Untitled'')) = Inr s"
      using summarize_transcript_text[OF tt] by blast
    with True show ?thesis
      by (auto simp: summarize_item_def Let_def fallback_policy_def)
  next
    case False
    show ?thesis
    proof (cases "truthy ?d")
      case True
      then obtain d where "?d = VStr d"
        using td by (cases ?d) auto
      with False True show ?thesis
        by (simp add: summarize_item_def Let_def fallback_policy_def)
    next
      case nd: False
      with False show ?thesis
        by (simp add: summarize_item_def Let_def fallback_policy_def)
    qed
  qed
qed

lemma ex_list_all2: "(\<forall>x\<in>set xs. \<exists>y. P x y) \<Longrightarrow> \<exists>ys. list_all2 P xs ys"
  by (induction xs) (auto simp: list_all2_Cons1)

text \<open>
  Claim C8. For every list of transcript records, \<open>summarize_multiple_transcripts\<close>
  returns a list of the same length whose entry at each position is the item of that
  position with the key \<open>summary\<close> set and every other key unchanged. The summary is
  the fixed placeholder when transcript and description are both absent or empty, and, when
  only the transcript is, the sentence made of the title and the first 200 characters of
  the description.
\<close>

theorem summarize_multiple_transcripts_adds_summary:
  assumes "\<forall>item\<in>set transcripts. transcript_record item"
  shows "\<exists>results.
     summarize_multiple_transcripts model transcripts = Inr results
     \<and> length results = length transcripts
     \<and> (\<forall>i<length transcripts.
          (\<forall>k. k \<noteq> ''summary'' \<longrightarrow> map_of (results ! i) k = map_of (transcripts ! i) k)
          \<and> (\<exists>text.
                results ! i = AList.update ''summary'' (VStr text) (transcripts ! i)
                \<and> map_of (results ! i) ''summary'' = Some (VStr text)
                \<and> fallback_policy (transcripts ! i) text))"
proof -
  have "\<forall>item\<in>set transcripts. \<exists>r. summarize_item model item = Inr r"
  proof
    fix item
    assume "item \<in> set transcripts"
    then have "transcript_record item"
      using assms by simp
    from summarize_item_record [OF this, of model]
    show "\<exists>r. summarize_item model item = Inr r"
      by blast
  qed
  then have "\<exists>results. list_all2 (\<lambda>item r. summarize_item model item = Inr r) transcripts results"
    by (rule ex_list_all2)
  then obtain results
    where all2: "list_all2 (\<lambda>item r. summarize_item model item = Inr r) transcripts results"
    by (rule exE)
  then have res: "summarize_multiple_transcripts model transcripts = Inr results"
    by (simp add: summarize_multiple_all2)
  have len: "length results = length transcripts"
    using all2 by (simp add: list_all2_lengthD)
  have each: "(\<forall>k. k \<noteq> ''summary'' \<longrightarrow> map_of (results ! i) k = map_of (transcripts ! i) k)
          \<and> (\<exists>text.
                results ! i = AList.update ''summary'' (VStr text) (transcripts ! i)
                \<and> map_of (results ! i) ''summary'' = Some (VStr text)
                \<and> fallback_policy (transcripts ! i) text)"
    if i: "i < length transcripts" for i
  proof -
    have r1: "summarize_item model (transcripts ! i) = Inr (results ! i)"
      using all2 i by (rule list_all2_nthD)
    have "transcript_record (transcripts ! i)"
      using assms i by simp
    then obtain smry
      where r2: "summarize_item model (transcripts ! i)
                = Inr (AList.update ''summary'' (VStr smry) (transcripts ! i))"
        and r3: "fallback_policy (transcripts ! i) smry"
      using summarize_item_record [of "transcripts ! i" model] by blast
    from r1 r2 have r4: "results ! i = AList.update ''summary'' (VStr smry) (transcripts ! i)"
      by simp
    have r5: "map_of (results ! i) ''summary'' = Some (VStr smry)"
      unfolding r4 by (simp add: update_conv')
    have r6: "\<forall>k. k \<noteq> ''summary'' \<longrightarrow> map_of (results ! i) k = map_of (transcripts ! i) k"
      unfolding r4 by (simp add: update_conv')
    from r3 r4 r5 r6 show ?thesis
      by blast
  qed
  from res len each show ?thesis
    by blast
qed

theorem summarize_multiple_transcripts_adds_summary_witness:
  "list_all transcript_record example_transcripts
   \<and> summarize_multiple_transcripts None example_transcripts =
     Inr [[(''title'', VStr ''Intro''), (''transcript'', VNone), (''video_id'', VStr ''v1''),
           (''description'', VStr ''''),
           (''summary'', VStr ''[No transcript or description available]'')],
          [(''title'', VStr ''Deep dive''), (''transcript'', VStr ''''), (''video_id'', VStr ''v2''),
           (''description'', VStr (replicate 250 (CHR ''d''))),
           (''summary'', VStr (''Video titled '' @ [CHR 0x27] @ ''Deep dive'' @ [CHR 0x27] @ '' - ''
                                @ replicate 200 (CHR ''d'')))],
          [(''title'', VStr ''Talk''), (''transcript'', VStr ''Hello and welcome''),
           (''video_id'', VStr ''v3''), (''description'', VStr ''A talk''),
           (''summary'', VStr ''[Mock Summary] Video discusses: Talk'')]]"
proof -
  have records: "\<forall>item\<in>set example_transcripts. transcript_record item"
    by (simp add: example_transcripts_def transcript_record_def dict_get_def)
  from summarize_multiple_transcripts_adds_summary [OF records, of None]
  obtain results where "summarize_multiple_transcripts None example_transcripts = Inr results"
    by blast
  then have "\<exists>results. summarize_multiple_transcripts None example_transcripts = Inr results"
    by blast
  with records show ?thesis
    by (simp add: example_transcripts_def dict_get_def summarize_item_def
        summarize_transcript_def Let_def list_all_iff)
qed

section \<open>The clients when no identifier can be extracted\<close>

lemmas regex_eval =
  re_search.simps match_run_def match_run_slash_def match_exact_def is_name_char_def
  is_segment_char_def Let_def

text \<open>
  Claim C5, as amended. When no identifier can be extracted from the URL, the GitHub client
  and the YouTube client return \<open>None\<close>, and the Instagram client returns the dictionary
  whose key \<open>error\<close> holds "Could not extract Instagram username from URL"; none of the
  three raises.
\<close>

theorem analyze_url_without_identifier:
  "(gh_extract_username_from_url url = None \<longrightarrow> github_analyze_url gh url = None)
   \<and> (\<not> configured (resolve_channel_id yt url) \<longrightarrow> youtube_analyze_url yt url = None)
   \<and> (extract_username url = None \<longrightarrow>
        instagram_analyze_url ig url
        = Inr (IgError ''Could not extract Instagram username from URL''))"
proof (intro conjI impI)
  assume "gh_extract_username_from_url url = None"
  then show "github_analyze_url gh url = None"
    by (simp add: github_analyze_url_def)
next
  assume "\<not> configured (resolve_channel_id yt url)"
  then show "youtube_analyze_url yt url = None"
    by (cases "resolve_channel_id yt url") (auto simp: youtube_analyze_url_def)
next
  assume "extract_username url = None"
  then show "instagram_analyze_url ig url
             = Inr (IgError ''Could not extract Instagram username from URL'')"
    by (simp add: instagram_analyze_url_def)
qed

theorem analyze_url_without_identifier_witness:
  "gh_extract_username_from_url ''https://github.com/features'' = None
   \<and> github_analyze_url example_github ''https://github.com/features'' = None
   \<and> \<not> configured (resolve_channel_id example_youtube ''https://www.youtube.com/'')
   \<and> youtube_analyze_url example_youtube ''https://www.youtube.com/'' = None
   \<and> extract_username ''https://www.instagram.com/'' = None
   \<and> instagram_analyze_url example_instagram ''https://www.instagram.com/''
       = Inr (IgError ''Could not extract Instagram username from URL'')"
proof -
  have gh: "gh_extract_username_from_url ''https://github.com/features'' = None"
    by (simp add: gh_extract_username_from_url_def gh_reserved_paths_def regex_eval)
  have yt: "\<not> configured (resolve_channel_id example_youtube ''https://www.youtube.com/'')"
    by (simp add: resolve_channel_id_def extract_video_id_from_url_def
        extract_channel_id_from_url_def match_watch_or_short_def match_custom_channel_def
        regex_eval)
  have ig: "extract_username ''https://www.instagram.com/'' = None"
    by (simp add: extract_username_def regex_eval)
  from gh yt ig
    analyze_url_without_identifier
      [of "''https://github.com/features''" example_github example_youtube]
    analyze_url_without_identifier
      [of "''https://www.youtube.com/''" example_github example_youtube]
    analyze_url_without_identifier
      [of "''https://www.instagram.com/''" example_github example_youtube example_instagram]
  show ?thesis
    by blast
qed

text \<open>
  The Instagram client does not return \<open>None\<close> when it finds no user name: for the URL
  \<open>https://www.instagram.com/\<close> it returns the error dictionary.
\<close>

theorem instagram_analyze_url_returns_error_dictionary:
  "extract_username ''https://www.instagram.com/'' = None
   \<and> instagram_analyze_url example_instagram ''https://www.instagram.com/''
       = Inr (IgError ''Could not extract Instagram username from URL'')"
  by (simp add: instagram_analyze_url_def extract_username_def regex_eval)

section \<open>The stages succeed on the dictionaries they are given\<close>

lemma collect_Inr:
  assumes "\<forall>x\<in>set xs. \<exists>y. f x = Inr y \<and> Q y"
  shows "\<exists>ys. collect f xs = Inr ys \<and> list_all Q ys \<and> length ys = length xs"
  using assms
proof (induction xs)
  case Nil
  then show ?case by simp
next
  case (Cons x xs)
  then obtain y where y: "f x = Inr y" "Q y"
    by auto
  from Cons obtain ys where "collect f xs = Inr ys" "list_all Q ys" "length ys = length xs"
    by auto
  with y show ?case
    by simp
qed

lemma summarize_multiple_collect:
  "summarize_multiple_transcripts model items = collect (summarize_item model) items"
  by (induction items) (auto split: sum.splits)

lemma text_atD: "text_at k item \<Longrightarrow> \<exists>t. map_of item k = Some (VStr t)"
  by (auto simp: text_at_def split: option.splits pyval.splits)

lemma text_atI: "map_of item k = Some (VStr t) \<Longrightarrow> text_at k item"
  by (simp add: text_at_def)

lemma text_or_absent_atD:
  "text_or_absent_at k item \<Longrightarrow> \<exists>t. dict_get item k (VStr dflt) = VStr t"
  by (auto simp: text_or_absent_at_def dict_get_def split: option.splits pyval.splits)

lemma text_or_absent_none:
  "text_or_absent_at k item \<Longrightarrow> text_or_none (dict_get item k VNone)"
  by (auto simp: text_or_absent_at_def dict_get_def split: option.splits pyval.splits)

lemma text_or_none_opt_str [simp]: "text_or_none (opt_str x)"
  by (cases x) auto

lemma text_or_absent_cases:
  "text_or_absent_at k item \<Longrightarrow> map_of item k = None \<or> (\<exists>t. map_of item k = Some (VStr t))"
  by (auto simp: text_or_absent_at_def split: option.splits pyval.splits)

lemma transcript_item_shaped:
  assumes "video_shaped v"
  shows "\<exists>r. transcript_item agent v = Inr r \<and> titled_record r"
proof -
  from assms obtain t where t: "map_of v ''title'' = Some (VStr t)"
    by (auto simp: video_shaped_def dest: text_atD)
  from assms have "map_of v ''description'' = None \<or> (\<exists>d. map_of v ''description'' = Some (VStr d))"
    by (auto simp: video_shaped_def dest: text_or_absent_cases)
  then show ?thesis
    by (cases "dict_get v ''video_id'' VNone")
       (auto simp: transcript_item_def dict_item_def t Let_def titled_record_def text_at_def
          transcript_record_def dict_get_def split: option.splits pyval.splits)
qed

lemma summarize_item_shaped:
  assumes "titled_record r"
  shows "\<exists>x. summarize_item model r = Inr x \<and> summary_shaped x"
proof -
  from assms have "transcript_record r" and t: "text_at ''title'' r"
    by (auto simp: titled_record_def)
  then obtain smry where "summarize_item model r = Inr (AList.update ''summary'' (VStr smry) r)"
    using summarize_item_record by blast
  moreover have "summary_shaped (AList.update ''summary'' (VStr smry) r)"
    using t by (simp add: summary_shaped_def text_at_def update_conv')
  ultimately show ?thesis
    by blast
qed

lemma printed_summary_shaped:
  assumes "summary_shaped x"
  shows "\<exists>p. printed_summary x = Inr p"
proof -
  from assms obtain t s where "map_of x ''title'' = Some (VStr t)" "map_of x ''summary'' = Some (VStr s)"
    by (auto simp: summary_shaped_def dest!: text_atD)
  then show ?thesis
    by (simp add: printed_summary_def dict_item_def)
qed

lemma youtube_context_parts_shaped:
  assumes "summary_shaped s" "list_all video_shaped tv"
  shows "\<exists>ps. youtube_context_parts tv (i, s) = Inr ps"
proof -
  from assms(1) obtain t sm where s: "map_of s ''title'' = Some (VStr t)" "map_of s ''summary'' = Some (VStr sm)"
    by (auto simp: summary_shaped_def dest!: text_atD)
  show ?thesis
  proof (cases "i < length tv")
    case True
    with assms(2) have "video_shaped (tv ! i)"
      by (simp add: list_all_length)
    then obtain vt vd where "map_of (tv ! i) ''title'' = Some (VStr vt)"
        "dict_get (tv ! i) ''description'' (VStr '''') = VStr vd"
      by (auto simp: video_shaped_def dest!: text_atD text_or_absent_atD)
    with s True show ?thesis
      by (auto simp: youtube_context_parts_def dict_get_def dict_item_def Let_def split: bool.splits)
  next
    case False
    with s show ?thesis
      by (auto simp: youtube_context_parts_def dict_get_def dict_item_def Let_def split: bool.splits)
  qed
qed

lemma get_transcripts_node_ok:
  assumes "list_all video_shaped (s_top_videos s)"
  shows "\<exists>ts. get_transcripts_node agent s = Inr (s\<lparr>s_transcripts := ts\<rparr>)
              \<and> list_all titled_record ts"
proof -
  have "\<forall>v\<in>set (s_top_videos s). \<exists>r. transcript_item agent v = Inr r \<and> titled_record r"
    using assms transcript_item_shaped by (auto simp: list_all_iff)
  then obtain ts where "collect (transcript_item agent) (s_top_videos s) = Inr ts"
      "list_all titled_record ts"
    using collect_Inr [of "s_top_videos s" "transcript_item agent" titled_record] by blast
  then show ?thesis
    by (auto simp: get_transcripts_node_def)
qed

lemma summarize_transcripts_node_ok:
  assumes "list_all titled_record (s_transcripts s)"
  shows "\<exists>ss. summarize_transcripts_node agent s = Inr (s\<lparr>s_summaries := ss\<rparr>)
              \<and> list_all summary_shaped ss"
proof -
  have "\<forall>r\<in>set (s_transcripts s).
          \<exists>x. summarize_item (summarizer_llm agent) r = Inr x \<and> summary_shaped x"
    using assms summarize_item_shaped by (auto simp: list_all_iff)
  then obtain ss where ss: "collect (summarize_item (summarizer_llm agent)) (s_transcripts s) = Inr ss"
      "list_all summary_shaped ss"
    using collect_Inr [of "s_transcripts s" "summarize_item (summarizer_llm agent)" summary_shaped]
    by blast
  then have "\<forall>x\<in>set ss. \<exists>p. printed_summary x = Inr p \<and> True"
    using printed_summary_shaped by (auto simp: list_all_iff)
  then obtain ps where "collect printed_summary ss = Inr ps"
    using collect_Inr [of ss printed_summary "\<lambda>p. True"] by blast
  with ss show ?thesis
    by (auto simp: summarize_transcripts_node_def summarize_multiple_collect)
qed

lemma content_context_youtube_ok:
  assumes "s_platform s \<noteq> ''github''" "s_platform s \<noteq> ''instagram''"
    and "list_all summary_shaped (s_summaries s)"
    and "list_all video_shaped (s_top_videos s)"
    and "s_about s = VStr a"
  shows "\<exists>c. content_context s = Inr c"
proof -
  have "\<forall>e\<in>set (enumerate 0 (s_summaries s)).
          \<exists>ps. youtube_context_parts (s_top_videos s) e = Inr ps \<and> True"
  proof
    fix e
    assume "e \<in> set (enumerate 0 (s_summaries s))"
    then have "fst e < length (s_summaries s)" "s_summaries s ! fst e = snd e"
      by (simp_all add: in_set_enumerate_eq)
    then have "snd e \<in> set (s_summaries s)"
      by (metis nth_mem)
    then have "summary_shaped (snd e)"
      using assms(3) by (simp add: list_all_iff)
    from youtube_context_parts_shaped [OF this assms(4), of "fst e"]
    show "\<exists>ps. youtube_context_parts (s_top_videos s) e = Inr ps \<and> True"
      by simp
  qed
  then obtain pss where
    "collect (youtube_context_parts (s_top_videos s)) (enumerate 0 (s_summaries s)) = Inr pss"
    using collect_Inr [of "enumerate 0 (s_summaries s)"
        "youtube_context_parts (s_top_videos s)" "\<lambda>p. True"]
    by blast
  with assms show ?thesis
    by (simp add: content_context_def Let_def)
qed

lemma content_context_titled_ok:
  assumes "s_platform s = ''github'' \<or> s_platform s = ''instagram''"
    and "list_all (text_at ''title'') (s_top_videos s)"
  shows "\<exists>c. content_context s = Inr c"
proof -
  have gh: "\<forall>v\<in>set (s_top_videos s). \<exists>l. github_context_line v = Inr l \<and> True"
    using assms(2)
    by (auto simp: list_all_iff github_context_line_def dict_item_def dest!: text_atD)
  have ig: "\<forall>v\<in>set (s_top_videos s). \<exists>l. instagram_context_line v = Inr l \<and> True"
    using assms(2)
    by (auto simp: list_all_iff instagram_context_line_def dict_item_def dest!: text_atD)
  from gh obtain gl where "collect github_context_line (s_top_videos s) = Inr gl"
    using collect_Inr [of "s_top_videos s" github_context_line "\<lambda>p. True"] by blast
  moreover from ig obtain il where "collect instagram_context_line (s_top_videos s) = Inr il"
    using collect_Inr [of "s_top_videos s" instagram_context_line "\<lambda>p. True"] by blast
  ultimately show ?thesis
    using assms(1) by (auto simp: content_context_def)
qed

lemma analyze_content_node_ok:
  assumes "content_context s = Inr c"
  shows "\<exists>d m. analyze_content_node agent s
               = Inr (s\<lparr>s_content_descriptor := d, s_content_summary := m\<rparr>)"
  using assms by (auto simp: analyze_content_node_def split: option.splits)

section \<open>The runs of the graph\<close>

lemma initial_state_fields [simp]:
  "s_url (initial_state url) = url"
  "s_platform (initial_state url) = []"
  "s_channel_name (initial_state url) = VStr []"
  "s_subscribers (initial_state url) = []"
  "s_about (initial_state url) = VStr []"
  "s_top_videos (initial_state url) = []"
  "s_transcripts (initial_state url) = []"
  "s_summaries (initial_state url) = []"
  "s_content_descriptor (initial_state url) = []"
  "s_content_summary (initial_state url) = []"
  "s_final_output (initial_state url) = []"
  "s_error (initial_state url) = []"
  by (simp_all add: initial_state_def)

lemma detected_unknown:
  assumes "detect_platform url = UNKNOWN"
  shows "detected url = (initial_state url)\<lparr>s_platform := ''unknown'',
           s_error := ''Unsupported platform. Use YouTube or GitHub URL.''\<rparr>"
  using assms by (simp add: detected_def detect_platform_node_def Let_def)

lemma detected_known:
  assumes "detect_platform url \<noteq> UNKNOWN"
  shows "detected url = (initial_state url)\<lparr>s_platform := platform_value (detect_platform url)\<rparr>"
  using assms by (simp add: detected_def detect_platform_node_def Let_def)

lemma route_detected:
  "route_by_platform (detected url) =
     (case detect_platform url of
        YOUTUBE \<Rightarrow> route_youtube | GITHUB \<Rightarrow> route_github
      | INSTAGRAM \<Rightarrow> route_instagram | UNKNOWN \<Rightarrow> route_error)"
  by (cases "detect_platform url")
     (simp_all add: detected_def detect_platform_node_def route_by_platform_def Let_def)

lemma unknown_trace:
  assumes "detect_platform url = UNKNOWN"
  shows "workflow_trace agent url = Inr [(DetectPlatform, detected url)]"
  using assms route_detected [of url]
  by (simp add: workflow_trace_def invoke_from.simps [of _ DetectPlatform] detected_def)

lemma fetch_youtube_shaped:
  fixes agent :: analyzer_agent
  assumes "detect_platform url = YOUTUBE"
  defines "s2 \<equiv> fetch_youtube_data_node agent (detected url)"
  shows "list_all video_shaped (s_top_videos s2)"
    and "\<exists>a. s_about s2 = VStr a"
    and "s_platform s2 = ''youtube''"
    and "s_transcripts s2 = []"
  using assms
  by (auto simp: fetch_youtube_data_node_def detected_known list_all_iff
      video_shaped_def text_at_def text_or_absent_at_def mock_video_item_def video_item_def
      Let_def split: option.splits)

lemma youtube_trace:
  assumes "detect_platform url = YOUTUBE"
  shows "\<exists>ts ss d m.
           workflow_trace agent url
           = Inr (youtube_path (detected url) (fetch_youtube_data_node agent (detected url))
                    ts ss d m)"
proof -
  let ?s1 = "detected url"
  let ?s2 = "fetch_youtube_data_node agent ?s1"
  note shaped = fetch_youtube_shaped [OF assms, where agent = agent]
  from shaped(1) obtain ts where ts: "get_transcripts_node agent ?s2 = Inr (?s2\<lparr>s_transcripts := ts\<rparr>)"
      "list_all titled_record ts"
    using get_transcripts_node_ok by blast
  let ?s3 = "?s2\<lparr>s_transcripts := ts\<rparr>"
  have "list_all titled_record (s_transcripts ?s3)"
    using ts(2) by simp
  then obtain ss where ss: "summarize_transcripts_node agent ?s3 = Inr (?s3\<lparr>s_summaries := ss\<rparr>)"
      "list_all summary_shaped ss"
    using summarize_transcripts_node_ok by blast
  let ?s4 = "?s3\<lparr>s_summaries := ss\<rparr>"
  from shaped(2) obtain a where a: "s_about ?s2 = VStr a"
    by blast
  have "\<exists>c. content_context ?s4 = Inr c"
    by (rule content_context_youtube_ok [where a = a])
       (use shaped ss(2) a in simp_all)
  then obtain d m where dm: "analyze_content_node agent ?s4
      = Inr (?s4\<lparr>s_content_descriptor := d, s_content_summary := m\<rparr>)"
    using analyze_content_node_ok by blast
  have r: "route_by_platform ?s1 = route_youtube"
    using assms by (simp add: route_detected)
  have "workflow_trace agent url = Inr (youtube_path ?s1 ?s2 ts ss d m)"
    unfolding workflow_trace_def youtube_path_def
    by (simp add: invoke_from.simps [of _ DetectPlatform] invoke_from.simps [of _ FetchYoutubeData]
        invoke_from.simps [of _ GetTranscripts] invoke_from.simps [of _ SummarizeTranscripts]
        invoke_from.simps [of _ AnalyzeContent] invoke_from.simps [of _ FormatOutput]
        r ts(1) ss(1) dm detected_def [symmetric])
  then show ?thesis
    by blast
qed

lemma fetch_github_shaped:
  fixes agent :: analyzer_agent
  assumes "detect_platform url = GITHUB"
  defines "s2 \<equiv> fetch_github_data_node agent (detected url)"
  shows "list_all (text_at ''title'') (s_top_videos s2)"
    and "s_platform s2 = ''github''"
  using assms
  by (auto simp: fetch_github_data_node_def detected_known list_all_iff text_at_def repo_item_def
      split: option.splits)

lemma short_trace:
  assumes "next_node DetectPlatform (detected url) = Some fetch"
    and "fetch = FetchGithubData \<or> fetch = FetchInstagramData"
    and "run_node agent fetch (detected url) = Inr s2"
    and "s_platform s2 = ''github'' \<or> s_platform s2 = ''instagram''"
    and "list_all (text_at ''title'') (s_top_videos s2)"
  shows "\<exists>d m. workflow_trace agent url = Inr (short_path fetch (detected url) s2 d m)"
proof -
  from assms(4,5) obtain c where "content_context s2 = Inr c"
    using content_context_titled_ok by blast
  then obtain d m where dm: "analyze_content_node agent s2
      = Inr (s2\<lparr>s_content_descriptor := d, s_content_summary := m\<rparr>)"
    using analyze_content_node_ok by blast
  have nx: "next_node fetch s2 = Some AnalyzeContent"
    using assms(2) by auto
  have "workflow_trace agent url = Inr (short_path fetch (detected url) s2 d m)"
    unfolding workflow_trace_def short_path_def
    using assms(1,3) nx dm
    by (simp add: invoke_from.simps [of _ DetectPlatform] invoke_from.simps [of _ fetch]
        invoke_from.simps [of _ AnalyzeContent] invoke_from.simps [of _ FormatOutput]
        detected_def [symmetric])
  then show ?thesis
    by blast
qed

lemma github_trace:
  assumes "detect_platform url = GITHUB"
  shows "\<exists>d m. workflow_trace agent url
           = Inr (short_path FetchGithubData (detected url)
                    (fetch_github_data_node agent (detected url)) d m)"
proof (rule short_trace)
  show "next_node DetectPlatform (detected url) = Some FetchGithubData"
    using assms by (simp add: route_detected)
  show "FetchGithubData = FetchGithubData \<or> FetchGithubData = FetchInstagramData"
    by simp
  show "run_node agent FetchGithubData (detected url)
        = Inr (fetch_github_data_node agent (detected url))"
    by simp
  show "s_platform (fetch_github_data_node agent (detected url)) = ''github''
        \<or> s_platform (fetch_github_data_node agent (detected url)) = ''instagram''"
    using fetch_github_shaped(2) [OF assms] by simp
  show "list_all (text_at ''title'') (s_top_videos (fetch_github_data_node agent (detected url)))"
    using fetch_github_shaped(1) [OF assms] .
qed

lemma fetch_instagram_shaped:
  assumes "detect_platform url = INSTAGRAM"
    and "fetch_instagram_data_node agent (detected url) = Inr s2"
  shows "list_all (text_at ''title'') (s_top_videos s2)"
    and "s_platform s2 = ''instagram''"
  using assms
  by (auto simp: fetch_instagram_data_node_def detected_known list_all_iff text_at_def
      post_item_def split: sum.splits ig_result.splits)

lemma instagram_trace:
  assumes "detect_platform url = INSTAGRAM"
    and "fetch_instagram_data_node agent (detected url) = Inr s2"
  shows "\<exists>d m. workflow_trace agent url
           = Inr (short_path FetchInstagramData (detected url) s2 d m)"
proof (rule short_trace)
  show "next_node DetectPlatform (detected url) = Some FetchInstagramData"
    using assms(1) by (simp add: route_detected)
  show "FetchInstagramData = FetchGithubData \<or> FetchInstagramData = FetchInstagramData"
    by simp
  show "run_node agent FetchInstagramData (detected url) = Inr s2"
    using assms(2) by simp
  show "s_platform s2 = ''github'' \<or> s_platform s2 = ''instagram''"
    using fetch_instagram_shaped(2) [OF assms] by simp
  show "list_all (text_at ''title'') (s_top_videos s2)"
    using fetch_instagram_shaped(1) [OF assms] .
qed

lemma fetch_instagram_returns:
  assumes "client_returns agent (s_url s)"
  shows "\<exists>s2. fetch_instagram_data_node agent s = Inr s2"
  using assms
  by (auto simp: client_returns_def fetch_instagram_data_node_def
      split: sum.splits ig_result.splits)

lemma run_cases [consumes 1, case_names unknown youtube github instagram]:
  assumes "detect_platform url = INSTAGRAM \<longrightarrow> client_returns agent url"
  obtains
    "detect_platform url = UNKNOWN"
      "workflow_trace agent url = Inr [(DetectPlatform, detected url)]"
  | ts ss d m where "detect_platform url = YOUTUBE"
      "workflow_trace agent url
       = Inr (youtube_path (detected url) (fetch_youtube_data_node agent (detected url)) ts ss d m)"
  | d m where "detect_platform url = GITHUB"
      "workflow_trace agent url
       = Inr (short_path FetchGithubData (detected url)
                (fetch_github_data_node agent (detected url)) d m)"
  | s2 d m where "detect_platform url = INSTAGRAM"
      "fetch_instagram_data_node agent (detected url) = Inr s2"
      "workflow_trace agent url = Inr (short_path FetchInstagramData (detected url) s2 d m)"
proof (cases "detect_platform url")
  case YOUTUBE
  with youtube_trace [of url agent] that(2) show ?thesis
    by blast
next
  case GITHUB
  with github_trace [of url agent] that(3) show ?thesis
    by blast
next
  case INSTAGRAM
  have "s_url (detected url) = url"
    by (simp add: detected_known INSTAGRAM)
  with assms INSTAGRAM have "client_returns agent (s_url (detected url))"
    by simp
  from fetch_instagram_returns [OF this]
  obtain s2 where s2: "fetch_instagram_data_node agent (detected url) = Inr s2"
    by blast
  with instagram_trace [OF INSTAGRAM s2] INSTAGRAM that(4) show ?thesis
    by blast
next
  case UNKNOWN
  with unknown_trace [of url agent] that(1) show ?thesis
    by blast
qed

lemma analyze_unknown:
  assumes "detect_platform url = UNKNOWN"
  shows "analyze agent url
         = Inr [(''error'', OVal (VStr ''Unsupported platform. Use YouTube or GitHub URL.''))]"
  by (simp add: analyze_def unknown_trace [OF assms] detected_unknown [OF assms])

lemma analyze_youtube_path:
  assumes "workflow_trace agent url = Inr (youtube_path s1 s2 ts ss d m)"
  shows "analyze agent url
         = Inr (if s_error s2 \<noteq> [] then [(''error'', OVal (VStr (s_error s2)))]
                else s_final_output
                       (format_output_node
                          (s2\<lparr>s_transcripts := ts, s_summaries := ss, s_content_descriptor := d,
                              s_content_summary := m\<rparr>)))"
  by (simp add: analyze_def assms youtube_path_def format_output_node_def)

lemma analyze_short_path:
  assumes "workflow_trace agent url = Inr (short_path fetch s1 s2 d m)"
  shows "analyze agent url
         = Inr (if s_error s2 \<noteq> [] then [(''error'', OVal (VStr (s_error s2)))]
                else s_final_output
                       (format_output_node
                          (s2\<lparr>s_content_descriptor := d, s_content_summary := m\<rparr>)))"
  by (simp add: analyze_def assms short_path_def format_output_node_def)

lemma complete_format_output: "complete_result (s_final_output (format_output_node s))"
  by (simp add: complete_result_def format_output_node_def)

lemma error_result_message: "message \<noteq> [] \<Longrightarrow> error_result [(''error'', OVal (VStr message))]"
  by (simp add: error_result_def)

lemma error_not_complete: "error_result r \<Longrightarrow> \<not> complete_result r"
  by (auto simp: error_result_def complete_result_def split: list.splits prod.splits
      outval.splits pyval.splits)

lemma result_shapes:
  "(error_result (if e \<noteq> [] then [(''error'', OVal (VStr e))]
                  else s_final_output (format_output_node s))
    \<and> \<not> complete_result (if e \<noteq> [] then [(''error'', OVal (VStr e))]
                            else s_final_output (format_output_node s)))
   \<or> (complete_result (if e \<noteq> [] then [(''error'', OVal (VStr e))]
                          else s_final_output (format_output_node s))
       \<and> \<not> error_result (if e \<noteq> [] then [(''error'', OVal (VStr e))]
                             else s_final_output (format_output_node s))
       \<and> (\<exists>t. (if e \<noteq> [] then [(''error'', OVal (VStr e))]
                 else s_final_output (format_output_node s))
                = s_final_output (format_output_node t)))"
proof (cases "e = []")
  case True
  have "complete_result (s_final_output (format_output_node s))"
    by (rule complete_format_output)
  moreover from this have "\<not> error_result (s_final_output (format_output_node s))"
    using error_not_complete by blast
  ultimately show ?thesis
    using True by auto
next
  case False
  then have "error_result [(''error'', OVal (VStr e))]"
    by (rule error_result_message)
  moreover from this have "\<not> complete_result [(''error'', OVal (VStr e))]"
    by (rule error_not_complete)
  ultimately show ?thesis
    using False by simp
qed

section \<open>The public entry point\<close>

lemmas pipeline_eval =
  analyze_def workflow_trace_def initial_state_def invoke_from.simps detect_platform_node_def
  detect_platform_def fetch_youtube_data_node_def fetch_github_data_node_def
  fetch_instagram_data_node_def get_transcripts_node_def transcript_item_def
  summarize_transcripts_node_def printed_summary_def summarize_item_def
  summarize_transcript_def analyze_content_node_def content_context_def
  github_context_line_def instagram_context_line_def youtube_context_parts_def
  format_output_node_def route_by_platform_def dict_get_def dict_item_def py_or_def
  enumerate_eq_zip mock_video_item_def video_item_def repo_item_def post_item_def
  youtube_mock_def github_analyze_url_def gh_extract_username_from_url_def
  gh_reserved_paths_def get_user_profile_def get_top_repos_by_stars_def get_user_repos_def
  get_user_languages_def get_repo_readme_def sorted_reverse_def list_slice_to_def
  instagram_analyze_url_def extract_username_def ig_reserved_paths_def
  get_profile_from_username_def get_recent_media_from_username_def generate_mock_data_def
  post_of_media_def mkbhd_mock_def replace_char_def sort_by_likes_def like_count_key_def

lemmas example_eval =
  example_agent_def example_agent_live_def example_youtube_def example_github_def
  example_instagram_def example_instagram_live_def example_repos_def example_media_def
  example_instagram_null_def example_agent_null_def example_youtube_live_def
  example_agent_keys_def

text \<open>
  Whenever the Instagram client returns, \<open>analyze\<close> returns, and what it returns is either
  the dictionary with the single key \<open>error\<close> and a non-empty message, or the complete
  final output that \<open>format_output_node\<close> built, with its eight keys; the two shapes
  exclude each other.
\<close>

lemma analyze_result_or_error_if_client_returns:
  assumes "detect_platform url = INSTAGRAM \<longrightarrow> client_returns agent url"
  shows "\<exists>r. analyze agent url = Inr r
     \<and> ((error_result r \<and> \<not> complete_result r)
        \<or> (complete_result r \<and> \<not> error_result r
           \<and> (\<exists>s. r = s_final_output (format_output_node s))))"
  using assms
proof (cases rule: run_cases [where url = url and agent = agent])
  case unknown
  have "error_result [(''error'', OVal (VStr ''Unsupported platform. Use YouTube or GitHub URL.''))]"
    by (simp add: error_result_def)
  moreover from this have
    "\<not> complete_result [(''error'', OVal (VStr ''Unsupported platform. Use YouTube or GitHub URL.''))]"
    by (rule error_not_complete)
  ultimately show ?thesis
    using analyze_unknown [OF unknown(1), of agent] by simp
next
  case (youtube ts ss d m)
  show ?thesis
    unfolding analyze_youtube_path [OF youtube(2)] using result_shapes by blast
next
  case (github d m)
  show ?thesis
    unfolding analyze_short_path [OF github(2)] using result_shapes by blast
next
  case (instagram s2 d m)
  show ?thesis
    unfolding analyze_short_path [OF instagram(3)] using result_shapes by blast
qed

text \<open>What the Instagram client raises on a URL of Instagram leaves \<open>analyze\<close>.\<close>

lemma analyze_raises_with_client:
  assumes "detect_platform url = INSTAGRAM"
    and "instagram_analyze_url (instagram_api agent) url = Inl err"
  shows "analyze agent url = Inl err"
proof -
  have "next_node DetectPlatform (detected url) = Some FetchInstagramData"
    using assms(1) by (simp add: route_detected)
  moreover have "fetch_instagram_data_node agent (detected url) = Inl err"
    using assms by (simp add: fetch_instagram_data_node_def detected_known)
  ultimately have "workflow_trace agent url = Inl err"
    by (simp add: workflow_trace_def invoke_from.simps [of _ DetectPlatform]
        invoke_from.simps [of _ FetchInstagramData] detected_def)
  then show ?thesis
    by (simp add: analyze_def)
qed

text \<open>
  Claim C1. For every URL, \<open>analyze\<close> returns either the complete final output or the
  dictionary with the single key \<open>error\<close>. The code does not keep this on every run:
  the Instagram client formats the follower count outside any \<open>try\<close> block, while the
  YouTube client formats the subscriber count inside one. For
  \<open>https://www.instagram.com/creator/\<close>, with credentials set and a profile whose
  \<open>followers_count\<close> is \<open>null\<close>, the formatter raises \<open>TypeError\<close>, the client and the
  fetch stage pass it on, and \<open>analyze\<close> raises instead of returning one of the two
  dictionaries.
\<close>

theorem analyze_raises_on_null_follower_count:
  "detect_platform ''https://www.instagram.com/creator/'' = INSTAGRAM
   \<and> get_profile_from_username (instagram_api example_agent_null) ''creator''
       = Some \<lparr>profile_username = Some ''creator'', profile_name = None,
               profile_biography = JAbsent, profile_followers_count = JNull\<rparr>
   \<and> format_count (get_count JNull 0) = Inl TypeError
   \<and> instagram_analyze_url (instagram_api example_agent_null)
         ''https://www.instagram.com/creator/'' = Inl TypeError
   \<and> fetch_instagram_data_node example_agent_null
         (detected ''https://www.instagram.com/creator/'') = Inl TypeError
   \<and> workflow_trace example_agent_null ''https://www.instagram.com/creator/'' = Inl TypeError
   \<and> analyze example_agent_null ''https://www.instagram.com/creator/'' = Inl TypeError"
  by (simp add: detected_def pipeline_eval example_eval text_eval regex_eval
      number_format_eval)

section \<open>The mock profile of YouTube\<close>

lemma fetch_youtube_mock:
  assumes "detect_platform url = YOUTUBE" "\<not> configured (yt_api_key (youtube_api agent))"
  shows "fetch_youtube_data_node agent (detected url)
         = (detected url)
             \<lparr>s_channel_name := VStr ''Demo Tech Creator'',
              s_subscribers := ''1.5M'',
              s_about := VStr ''Tech reviews, coding tutorials, and developer content'',
              s_top_videos :=
                [[(''title'', VStr ''Building a 3D Portfolio with React Three Fiber''),
                  (''video_id'', VStr ''mock_0'')],
                 [(''title'', VStr ''Why I Switched to Neovim (Developer Setup Tour)''),
                  (''video_id'', VStr ''mock_1'')]]\<rparr>"
  using assms
  by (simp add: fetch_youtube_data_node_def youtube_mock_def mock_video_item_def
      enumerate_eq_zip py_str_int_def digits_of_nat.simps digit_char_def Let_def)

text \<open>
  Claim C6. Without YouTube API key, \<open>analyze\<close> on a YouTube URL returns the fields of the
  mock profile as they are written in \<open>youtube_mock\<close>: the channel name is "Demo Tech
  Creator", the subscriber display is "1.5M", and the top content is made of the first two
  mock video titles, with the identifiers \<open>mock_0\<close> and \<open>mock_1\<close>.
\<close>

theorem youtube_mock_profile_verbatim:
  assumes "detect_platform url = YOUTUBE" "\<not> configured (yt_api_key (youtube_api agent))"
  shows "\<exists>r. analyze agent url = Inr r
     \<and> map_of r ''channel_name'' = Some (OVal (VStr ''Demo Tech Creator''))
     \<and> map_of r ''subscribers'' = Some (OVal (VStr ''1.5M''))
     \<and> map_of r ''about''
         = Some (OVal (VStr ''Tech reviews, coding tutorials, and developer content''))
     \<and> map_of r ''top_content''
         = Some (OItems [[(''title'', VStr ''Building a 3D Portfolio with React Three Fiber''),
                          (''video_id'', VStr ''mock_0'')],
                         [(''title'', VStr ''Why I Switched to Neovim (Developer Setup Tour)''),
                          (''video_id'', VStr ''mock_1'')]])"
proof -
  from youtube_trace [OF assms(1), of agent] obtain ts ss d m where
    "workflow_trace agent url
     = Inr (youtube_path (detected url) (fetch_youtube_data_node agent (detected url)) ts ss d m)"
    by blast
  note run = analyze_youtube_path [OF this]
  have known: "detect_platform url \<noteq> UNKNOWN"
    using assms(1) by simp
  show ?thesis
    unfolding run fetch_youtube_mock [OF assms]
    by (simp add: format_output_node_def detected_known [OF known] py_or_def)
qed

theorem youtube_mock_profile_verbatim_witness:
  "detect_platform ''https://youtube.com/@mkbhd'' = YOUTUBE
   \<and> \<not> configured (yt_api_key (youtube_api example_agent))
   \<and> (\<exists>r. analyze example_agent ''https://youtube.com/@mkbhd'' = Inr r
        \<and> map_of r ''channel_name'' = Some (OVal (VStr ''Demo Tech Creator''))
        \<and> map_of r ''subscribers'' = Some (OVal (VStr ''1.5M''))
        \<and> map_of r ''about''
            = Some (OVal (VStr ''Tech reviews, coding tutorials, and developer content''))
        \<and> map_of r ''top_content''
            = Some (OItems [[(''title'', VStr ''Building a 3D Portfolio with React Three Fiber''),
                             (''video_id'', VStr ''mock_0'')],
                            [(''title'', VStr ''Why I Switched to Neovim (Developer Setup Tour)''),
                             (''video_id'', VStr ''mock_1'')]]))"
proof -
  have platform: "detect_platform ''https://youtube.com/@mkbhd'' = YOUTUBE"
    by (simp add: detect_platform_def text_eval)
  have no_key: "\<not> configured (yt_api_key (youtube_api example_agent))"
    by (simp add: example_agent_def example_youtube_def)
  from platform no_key youtube_mock_profile_verbatim [OF platform no_key]
  show ?thesis
    by blast
qed

section \<open>Runs that end in an error\<close>

lemma keeps_profile_refl [simp]: "keeps_profile s s"
  by (simp add: keeps_profile_def)

lemma keeps_profile_both:
  "keeps_profile s a \<Longrightarrow> keeps_profile s b \<Longrightarrow> keeps_profile a b"
  by (simp add: keeps_profile_def)

lemma keeps_after_error:
  assumes "s_error s1 = []"
    and "list_all (\<lambda>p. keeps_profile s2 (snd p)) rest"
  shows "\<forall>i j. i \<le> j \<and> j < length ((n0, s1) # rest)
               \<and> s_error (snd (((n0, s1) # rest) ! i)) \<noteq> []
           \<longrightarrow> keeps_profile (snd (((n0, s1) # rest) ! i)) (snd (((n0, s1) # rest) ! j))"
proof (intro allI impI)
  fix i j
  assume h: "i \<le> j \<and> j < length ((n0, s1) # rest)
             \<and> s_error (snd (((n0, s1) # rest) ! i)) \<noteq> []"
  with assms(1) have "i \<noteq> 0"
    by (cases i) auto
  then obtain i' where i': "i = Suc i'"
    by (cases i) auto
  with h obtain j' where j': "j = Suc j'"
    by (cases j) auto
  from h i' j' have "i' < length rest" "j' < length rest"
    by auto
  with assms(2) have "keeps_profile s2 (snd (rest ! i'))" "keeps_profile s2 (snd (rest ! j'))"
    by (simp_all add: list_all_length)
  then have "keeps_profile (snd (rest ! i')) (snd (rest ! j'))"
    by (rule keeps_profile_both)
  then show "keeps_profile (snd (((n0, s1) # rest) ! i)) (snd (((n0, s1) # rest) ! j))"
    by (simp add: i' j')
qed

lemma keeps_youtube_path:
  assumes "s_error s1 = []"
  shows "\<forall>i j. i \<le> j \<and> j < length (youtube_path s1 s2 ts ss d m)
               \<and> s_error (snd (youtube_path s1 s2 ts ss d m ! i)) \<noteq> []
           \<longrightarrow> keeps_profile (snd (youtube_path s1 s2 ts ss d m ! i))
                 (snd (youtube_path s1 s2 ts ss d m ! j))"
  unfolding youtube_path_def
  by (rule keeps_after_error [OF assms, where ?s2.0 = s2])
     (simp add: keeps_profile_def format_output_node_def)

lemma keeps_short_path:
  assumes "s_error s1 = []"
  shows "\<forall>i j. i \<le> j \<and> j < length (short_path fetch s1 s2 d m)
               \<and> s_error (snd (short_path fetch s1 s2 d m ! i)) \<noteq> []
           \<longrightarrow> keeps_profile (snd (short_path fetch s1 s2 d m ! i))
                 (snd (short_path fetch s1 s2 d m ! j))"
  unfolding short_path_def
  by (rule keeps_after_error [OF assms, where ?s2.0 = s2])
     (simp add: keeps_profile_def format_output_node_def)

lemma error_result_if:
  "error_result (if e \<noteq> [] then [(''error'', OVal (VStr e))]
                 else s_final_output (format_output_node s)) \<longleftrightarrow> e \<noteq> []"
  by (simp add: error_result_def format_output_node_def)

lemma detected_no_error: "detect_platform url \<noteq> UNKNOWN \<Longrightarrow> s_error (detected url) = []"
  by (simp add: detected_known)

lemma fetch_youtube_error:
  assumes "detect_platform url = YOUTUBE"
  shows "s_error (fetch_youtube_data_node agent (detected url)) \<noteq> [] \<longleftrightarrow> fetch_failed agent url"
  using assms
  by (auto simp: fetch_youtube_data_node_def detected_known fetch_failed_def Let_def
      split: option.splits)

lemma fetch_github_error:
  assumes "detect_platform url = GITHUB"
  shows "s_error (fetch_github_data_node agent (detected url)) \<noteq> [] \<longleftrightarrow> fetch_failed agent url"
  using assms
  by (auto simp: fetch_github_data_node_def detected_known fetch_failed_def split: option.splits)

lemma instagram_error_message:
  assumes "instagram_analyze_url ig url = Inr (IgError message)"
  shows "message = ''Could not extract Instagram username from URL''"
  using assms
  by (auto simp: instagram_analyze_url_def Let_def split: option.splits if_splits sum.splits)

lemma fetch_instagram_error:
  assumes "detect_platform url = INSTAGRAM"
    and "fetch_instagram_data_node agent (detected url) = Inr s2"
  shows "s_error s2 \<noteq> [] \<longleftrightarrow> fetch_failed agent url"
proof (cases "instagram_analyze_url (instagram_api agent) url")
  case (Inl e)
  with assms show ?thesis
    by (simp add: fetch_instagram_data_node_def detected_known)
next
  case (Inr r)
  show ?thesis
  proof (cases r)
    case (IgError message)
    with Inr instagram_error_message have "message \<noteq> []"
      by fastforce
    with assms Inr IgError show ?thesis
      by (auto simp: fetch_instagram_data_node_def detected_known fetch_failed_def)
  next
    case (IgData data)
    with assms Inr show ?thesis
      by (auto simp: fetch_instagram_data_node_def detected_known fetch_failed_def)
  qed
qed

text \<open>
  Whenever the Instagram client returns, the run returns, and \<open>analyze\<close> returns the error
  result if and only if the detection yields Unknown or the fetch stage of the detected
  platform reports a failure. The stages that run are those on the path of the detected
  platform, and from the stage that set the error on, no stage changes the URL, the
  platform, the channel name, the subscribers, the biography, the top videos or the error.
\<close>

lemma error_iff_if_client_returns:
  assumes "detect_platform url = INSTAGRAM \<longrightarrow> client_returns agent url"
  shows "\<exists>trace r.
     workflow_trace agent url = Inr trace \<and> analyze agent url = Inr r
     \<and> (error_result r \<longleftrightarrow> detect_platform url = UNKNOWN \<or> fetch_failed agent url)
     \<and> map fst trace = path_of (detect_platform url)
     \<and> (\<forall>i j. i \<le> j \<and> j < length trace \<and> s_error (snd (trace ! i)) \<noteq> []
            \<longrightarrow> keeps_profile (snd (trace ! i)) (snd (trace ! j)))"
  using assms
proof (cases rule: run_cases [where url = url and agent = agent])
  case unknown
  have "error_result [(''error'', OVal (VStr ''Unsupported platform. Use YouTube or GitHub URL.''))]"
    by (simp add: error_result_def)
  with unknown analyze_unknown [OF unknown(1), of agent] show ?thesis
    by (simp add: path_of_def)
next
  case (youtube ts ss d m)
  let ?s1 = "detected url"
  let ?s2 = "fetch_youtube_data_node agent ?s1"
  have e1: "s_error ?s1 = []"
    using youtube(1) by (simp add: detected_no_error)
  note r = analyze_youtube_path [OF youtube(2)]
  have "map fst (youtube_path ?s1 ?s2 ts ss d m) = path_of (detect_platform url)"
    by (simp add: youtube_path_def path_of_def youtube(1))
  moreover have "error_result
       (if s_error ?s2 \<noteq> [] then [(''error'', OVal (VStr (s_error ?s2)))]
        else s_final_output
               (format_output_node
                  (?s2\<lparr>s_transcripts := ts, s_summaries := ss, s_content_descriptor := d,
                       s_content_summary := m\<rparr>)))
     \<longleftrightarrow> detect_platform url = UNKNOWN \<or> fetch_failed agent url"
    unfolding error_result_if using fetch_youtube_error [OF youtube(1), of agent] youtube(1)
    by simp
  ultimately show ?thesis
    using youtube(2) r keeps_youtube_path [OF e1, of ?s2 ts ss d m] by blast
next
  case (github d m)
  let ?s1 = "detected url"
  let ?s2 = "fetch_github_data_node agent ?s1"
  have e1: "s_error ?s1 = []"
    using github(1) by (simp add: detected_no_error)
  note r = analyze_short_path [OF github(2)]
  have "map fst (short_path FetchGithubData ?s1 ?s2 d m) = path_of (detect_platform url)"
    by (simp add: short_path_def path_of_def github(1))
  moreover have "error_result
       (if s_error ?s2 \<noteq> [] then [(''error'', OVal (VStr (s_error ?s2)))]
        else s_final_output
               (format_output_node (?s2\<lparr>s_content_descriptor := d, s_content_summary := m\<rparr>)))
     \<longleftrightarrow> detect_platform url = UNKNOWN \<or> fetch_failed agent url"
    unfolding error_result_if using fetch_github_error [OF github(1), of agent] github(1)
    by simp
  ultimately show ?thesis
    using github(2) r keeps_short_path [OF e1, of FetchGithubData ?s2 d m] by blast
next
  case (instagram s2 d m)
  let ?s1 = "detected url"
  have e1: "s_error ?s1 = []"
    using instagram(1) by (simp add: detected_no_error)
  note r = analyze_short_path [OF instagram(3)]
  have "map fst (short_path FetchInstagramData ?s1 s2 d m) = path_of (detect_platform url)"
    by (simp add: short_path_def path_of_def instagram(1))
  moreover have "error_result
       (if s_error s2 \<noteq> [] then [(''error'', OVal (VStr (s_error s2)))]
        else s_final_output
               (format_output_node (s2\<lparr>s_content_descriptor := d, s_content_summary := m\<rparr>)))
     \<longleftrightarrow> detect_platform url = UNKNOWN \<or> fetch_failed agent url"
    unfolding error_result_if using fetch_instagram_error [OF instagram(1,2)] instagram(1)
    by simp
  ultimately show ?thesis
    using instagram(3) r keeps_short_path [OF e1, of FetchInstagramData s2 d m] by blast
qed

lemma failed_fetch_trace:
  "workflow_trace example_agent ''https://github.com/features''
   = Inr [(DetectPlatform, detected ''https://github.com/features''),
          (FetchGithubData,
           fetch_github_data_node example_agent (detected ''https://github.com/features'')),
          (AnalyzeContent,
           (fetch_github_data_node example_agent (detected ''https://github.com/features''))
             \<lparr>s_content_descriptor := ''Tech Educator'',
              s_content_summary :=
                '' creates content focused on technology, development, and innovation.''\<rparr>),
          (FormatOutput,
           format_output_node
             ((fetch_github_data_node example_agent (detected ''https://github.com/features''))
                \<lparr>s_content_descriptor := ''Tech Educator'',
                 s_content_summary :=
                   '' creates content focused on technology, development, and innovation.''\<rparr>))]"
  by (simp add: detected_def pipeline_eval example_eval text_eval regex_eval)

lemma failed_fetch_error:
  "s_error (fetch_github_data_node example_agent (detected ''https://github.com/features''))
   = ''Failed to fetch GitHub data''"
  by (simp add: detected_def pipeline_eval example_eval text_eval regex_eval)

text \<open>
  Claim C2. The error terminal is reached if and only if the detection yields Unknown or
  the fetch stage of the detected platform reports a failure, and then no further stage
  runs. The code keeps this after the detection only, whose conditional edge leads an error
  to the end of the graph. The fetch stages have unconditional edges: for
  \<open>https://github.com/features\<close> no user name is found, the GitHub stage sets the error
  \<open>Failed to fetch GitHub data\<close>, and the characterization and the output formatting run
  all the same, on the state that holds the error, and write the descriptor, the summary
  and the final output.
\<close>

theorem failed_fetch_runs_later_stages:
  "s_error (fetch_github_data_node example_agent (detected ''https://github.com/features''))
   = ''Failed to fetch GitHub data''
   \<and> workflow_trace example_agent ''https://github.com/features''
     = Inr [(DetectPlatform, detected ''https://github.com/features''),
            (FetchGithubData,
             fetch_github_data_node example_agent (detected ''https://github.com/features'')),
            (AnalyzeContent,
             (fetch_github_data_node example_agent (detected ''https://github.com/features''))
               \<lparr>s_content_descriptor := ''Tech Educator'',
                s_content_summary :=
                  '' creates content focused on technology, development, and innovation.''\<rparr>),
            (FormatOutput,
             format_output_node
               ((fetch_github_data_node example_agent (detected ''https://github.com/features''))
                  \<lparr>s_content_descriptor := ''Tech Educator'',
                   s_content_summary :=
                     '' creates content focused on technology, development, and innovation.''\<rparr>))]
   \<and> s_content_descriptor
       (fetch_github_data_node example_agent (detected ''https://github.com/features'')) = []
   \<and> s_final_output
       (fetch_github_data_node example_agent (detected ''https://github.com/features'')) = []
   \<and> s_final_output
       (format_output_node
          ((fetch_github_data_node example_agent (detected ''https://github.com/features''))
             \<lparr>s_content_descriptor := ''Tech Educator'',
              s_content_summary :=
                '' creates content focused on technology, development, and innovation.''\<rparr>))
     \<noteq> []"
  using failed_fetch_trace failed_fetch_error
  by (simp add: detected_def pipeline_eval example_eval text_eval regex_eval)

section \<open>The top content of Instagram\<close>

lemma post_of_media_caption:
  "post_caption (post_of_media x)
   = (case media_caption x of
        None \<Rightarrow> ''No caption''
      | Some c \<Rightarrow> if c \<noteq> [] then take 100 c else ''No caption'')"
  by (simp add: post_of_media_def)

lemma post_of_media_caption_filled: "post_caption (post_of_media x) \<noteq> []"
  by (auto simp: post_of_media_def split: option.splits)

lemma post_item_title:
  "map_of (post_item p) ''title''
   = Some (VStr (if post_caption p \<noteq> [] then take 100 (post_caption p) else ''Untitled Post''))"
  by (simp add: post_item_def)

lemma post_item_media_title:
  "map_of (post_item (post_of_media x)) ''title''
   = Some (VStr (case media_caption x of
                   None \<Rightarrow> ''No caption''
                 | Some c \<Rightarrow> if c \<noteq> [] then take 100 c else ''No caption''))"
  by (auto simp: post_item_title post_of_media_def split: option.splits)

lemma client_captions_filled:
  assumes "instagram_analyze_url ig url = Inr (IgData data)"
  shows "\<forall>p\<in>set (ig_top_posts data). post_caption p \<noteq> []"
  using assms
  by (auto simp: instagram_analyze_url_def Let_def generate_mock_data_def mkbhd_mock_def
      post_of_media_caption_filled
      split: option.splits if_splits sum.splits)

lemma live_posts:
  assumes "instagram_analyze_url ig url = Inr (IgData data)"
    and "extract_username url = Some username"
    and "get_profile_from_username ig username = Some profile"
  shows "ig_top_posts data
         = map post_of_media
             (take 3 (sorted_reverse (\<lambda>x. int_of_key (like_count_key x))
                        (get_recent_media_from_username ig username 6)))"
proof -
  have conf: "configured (ig_access_token ig) \<and> configured (ig_business_account_id ig)"
    using assms(3) by (auto simp: get_profile_from_username_def split: if_splits)
  show ?thesis
    using assms conf
    by (auto simp: instagram_analyze_url_def sort_by_likes_def Let_def
        split: if_splits sum.splits)
qed

lemma fetch_instagram_data:
  assumes "detect_platform url = INSTAGRAM"
    and "instagram_analyze_url (instagram_api agent) url = Inr (IgData data)"
  shows "fetch_instagram_data_node agent (detected url)
         = Inr ((detected url)
                  \<lparr>s_channel_name := py_or (ig_name data) (ig_username data),
                   s_subscribers := ig_followers data @ '' followers'',
                   s_about := ig_bio data,
                   s_top_videos := map post_item (take 2 (ig_top_posts data))\<rparr>)"
  using assms by (simp add: fetch_instagram_data_node_def detected_known)

text \<open>
  Claim C9, as amended. For every analyzed Instagram profile at most two top-content items
  are surfaced, one for each of the first two posts that the client returned, and the title
  of each is the first 100 characters of the caption of that post, which is never empty. The
  client has already replaced a missing or empty caption of the API by "No caption", so the
  title of a post without caption is "No caption"; "Untitled Post" is the title only for a
  post of the client with an empty caption, and the client returns none.
\<close>

theorem instagram_top_content_titles:
  assumes "detect_platform url = INSTAGRAM"
    and "instagram_analyze_url (instagram_api agent) url = Inr (IgData data)"
  shows "\<exists>r. analyze agent url = Inr r
     \<and> map_of r ''top_content'' = Some (OItems (map post_item (take 2 (ig_top_posts data))))
     \<and> length (map post_item (take 2 (ig_top_posts data))) \<le> 2
     \<and> (\<forall>p\<in>set (ig_top_posts data).
           post_caption p \<noteq> []
           \<and> map_of (post_item p) ''title'' = Some (VStr (take 100 (post_caption p))))
     \<and> (\<forall>username profile.
           extract_username url = Some username
           \<and> get_profile_from_username (instagram_api agent) username = Some profile
           \<longrightarrow> ig_top_posts data
               = map post_of_media
                   (take 3 (sorted_reverse
                              (\<lambda>x. int_of_key (like_count_key x))
                              (get_recent_media_from_username (instagram_api agent) username 6))))
     \<and> (\<forall>x. map_of (post_item (post_of_media x)) ''title''
              = Some (VStr (case media_caption x of
                              None \<Rightarrow> ''No caption''
                            | Some c \<Rightarrow> if c \<noteq> [] then take 100 c else ''No caption'')))
     \<and> (\<forall>p. post_caption p = []
              \<longrightarrow> map_of (post_item p) ''title'' = Some (VStr ''Untitled Post''))"
proof -
  let ?s2 = "(detected url)
               \<lparr>s_channel_name := py_or (ig_name data) (ig_username data),
                s_subscribers := ig_followers data @ '' followers'',
                s_about := ig_bio data,
                s_top_videos := map post_item (take 2 (ig_top_posts data))\<rparr>"
  note fetch = fetch_instagram_data [OF assms]
  from instagram_trace [OF assms(1) fetch] obtain d m where
    "workflow_trace agent url = Inr (short_path FetchInstagramData (detected url) ?s2 d m)"
    by blast
  note run = analyze_short_path [OF this]
  have known: "detect_platform url \<noteq> UNKNOWN"
    using assms(1) by simp
  have out: "\<exists>r. analyze agent url = Inr r
     \<and> map_of r ''top_content'' = Some (OItems (map post_item (take 2 (ig_top_posts data))))"
    unfolding run by (simp add: format_output_node_def detected_known [OF known])
  have filled: "\<forall>p\<in>set (ig_top_posts data).
           post_caption p \<noteq> []
           \<and> map_of (post_item p) ''title'' = Some (VStr (take 100 (post_caption p)))"
    using client_captions_filled [OF assms(2)] by (simp add: post_item_title)
  have live: "\<forall>username profile.
           extract_username url = Some username
           \<and> get_profile_from_username (instagram_api agent) username = Some profile
           \<longrightarrow> ig_top_posts data
               = map post_of_media
                   (take 3 (sorted_reverse
                              (\<lambda>x. int_of_key (like_count_key x))
                              (get_recent_media_from_username (instagram_api agent) username 6)))"
    using live_posts [OF assms(2)] by blast
  have untitled: "\<forall>p. post_caption p = []
              \<longrightarrow> map_of (post_item p) ''title'' = Some (VStr ''Untitled Post'')"
    by (simp add: post_item_title)
  from out filled live untitled post_item_media_title show ?thesis
    by simp
qed

lemma captionless_run:
  "analyze example_agent_live ''https://www.instagram.com/creator/''
   = Inr [(''platform'', OVal (VStr ''instagram'')),
          (''channel_name'', OVal (VStr ''creator'')),
          (''subscribers'', OVal (VStr ''1.5M followers'')),
          (''content_descriptor'', OVal (VStr ''Tech Educator'')),
          (''content_summary'',
           OVal (VStr ''creator creates content focused on technology, development, and innovation.'')),
          (''about'', OVal (VStr [])),
          (''top_content'',
           OItems [[(''title'', VStr ''No caption''), (''likes'', VInt 50),
                    (''comments'', VInt 0), (''type'', VStr ''VIDEO''),
                    (''url'', VStr ''https://instagram.com/p/b'')],
                   [(''title'', VStr ''Sunset''), (''likes'', VInt 20),
                    (''comments'', VInt 2), (''type'', VStr ''IMAGE''),
                    (''url'', VStr ''https://instagram.com/p/a'')]]),
          (''summaries'', OItems [])]"
  by (simp add: pipeline_eval example_eval text_eval regex_eval number_format_eval)

lemma example_live_fetch:
  "instagram_analyze_url (instagram_api example_agent_live) ''https://www.instagram.com/creator/''
   = Inr (IgData example_live_data)"
  by (simp add: pipeline_eval example_eval example_live_data_def text_eval regex_eval
      number_format_eval)

theorem instagram_top_content_titles_witness:
  "detect_platform ''https://www.instagram.com/creator/'' = INSTAGRAM
   \<and> instagram_analyze_url (instagram_api example_agent_live)
         ''https://www.instagram.com/creator/''
       = Inr (IgData example_live_data)
   \<and> extract_username ''https://www.instagram.com/creator/'' = Some ''creator''
   \<and> get_profile_from_username (instagram_api example_agent_live) ''creator''
       = Some \<lparr>profile_username = Some ''creator'', profile_name = None,
               profile_biography = JAbsent, profile_followers_count = JValue 1500000\<rparr>
   \<and> map post_caption (ig_top_posts example_live_data) = [''No caption'', ''Sunset'']
   \<and> (\<exists>r. analyze example_agent_live ''https://www.instagram.com/creator/'' = Inr r
        \<and> map_of r ''top_content''
            = Some (OItems (map post_item (take 2 (ig_top_posts example_live_data)))))"
proof -
  have platform: "detect_platform ''https://www.instagram.com/creator/'' = INSTAGRAM"
    by (simp add: detect_platform_def text_eval)
  have username: "extract_username ''https://www.instagram.com/creator/'' = Some ''creator''"
    by (simp add: extract_username_def ig_reserved_paths_def regex_eval)
  have profile: "get_profile_from_username (instagram_api example_agent_live) ''creator''
       = Some \<lparr>profile_username = Some ''creator'', profile_name = None,
               profile_biography = JAbsent, profile_followers_count = JValue 1500000\<rparr>"
    by (simp add: get_profile_from_username_def example_eval)
  have captions: "map post_caption (ig_top_posts example_live_data) = [''No caption'', ''Sunset'']"
    by (simp add: example_live_data_def)
  from instagram_top_content_titles [OF platform example_live_fetch]
  have "\<exists>r. analyze example_agent_live ''https://www.instagram.com/creator/'' = Inr r
        \<and> map_of r ''top_content''
            = Some (OItems (map post_item (take 2 (ig_top_posts example_live_data))))"
    by blast
  with platform example_live_fetch username profile captions show ?thesis
    by simp
qed

text \<open>
  An analyzed profile with a post without caption: the second media object of the example
  has no caption and the most likes, and the title of the first surfaced item is
  "No caption", not "Untitled Post".
\<close>

theorem captionless_post_is_titled_no_caption:
  "media_caption (example_media ! 1) = None
   \<and> analyze example_agent_live ''https://www.instagram.com/creator/''
     = Inr [(''platform'', OVal (VStr ''instagram'')),
            (''channel_name'', OVal (VStr ''creator'')),
            (''subscribers'', OVal (VStr ''1.5M followers'')),
            (''content_descriptor'', OVal (VStr ''Tech Educator'')),
            (''content_summary'',
             OVal (VStr ''creator creates content focused on technology, development, and innovation.'')),
            (''about'', OVal (VStr [])),
            (''top_content'',
             OItems [[(''title'', VStr ''No caption''), (''likes'', VInt 50),
                      (''comments'', VInt 0), (''type'', VStr ''VIDEO''),
                      (''url'', VStr ''https://instagram.com/p/b'')],
                     [(''title'', VStr ''Sunset''), (''likes'', VInt 20),
                      (''comments'', VInt 2), (''type'', VStr ''IMAGE''),
                      (''url'', VStr ''https://instagram.com/p/a'')]]),
            (''summaries'', OItems [])]"
  using captionless_run by (simp add: example_media_def)

section \<open>The follower and subscriber displays\<close>




















end
